theory Spec2Isabelle
  imports Complex_Main "HOL-Library.Word"
begin

unbundle bit_operations_syntax

chapter \<open>Definitions\<close>

section \<open>The territory fragment shader (FRAGMENT_SHADER_SOURCE of WebGLTerritoryLayer)\<close>

text \<open>
  GLSL values. A \<open>uint\<close> is a 32-bit word. Floats are taken as exact rationals: the
  shader only copies them, divides a byte by 255 and blends with weight one half, and no
  property below depends on rounding. A GLSL \<open>int\<close> holds texel coordinates, far from
  its 32-bit limits, and is an \<open>int\<close>.
\<close>

type_synonym uint = "32 word"
type_synonym vec2 = "rat \<times> rat"
type_synonym vec3 = "rat \<times> rat \<times> rat"
type_synonym vec4 = "rat \<times> rat \<times> rat \<times> rat"
type_synonym ivec2 = "int \<times> int"

text \<open>
  The tile texture is an R16UI image (one unsigned 16-bit texel per tile, row-major); the
  palette texture is an RGBA8 image (four bytes per texel, row-major).
\<close>

record usampler2D =
  tile_width :: nat
  tile_height :: nat
  tile_texels :: "16 word list"

record sampler2D =
  pal_width :: nat
  pal_height :: nat
  pal_bytes :: "nat list"

text \<open>The uniforms and the varying input of one fragment.\<close>

record fragment_input =
  v_texCoord :: vec2
  u_tileTexture :: usampler2D
  u_hasFocusedPlayer :: rat
  u_focusedPlayerId :: int
  u_paletteTexture :: sampler2D
  u_territoryAlpha :: rat
  u_borderAlpha :: rat
  u_focusedBorderColor :: vec3
  u_falloutColor :: vec3
  debug_draw_palette :: bool
  debug_draw_tiles :: bool

subsection \<open>Built-in texture functions\<close>

definition textureSize_u :: "usampler2D \<Rightarrow> ivec2" where
  "textureSize_u t = (int (tile_width t), int (tile_height t))"

definition textureSize_p :: "sampler2D \<Rightarrow> ivec2" where
  "textureSize_p t = (int (pal_width t), int (pal_height t))"

definition in_bounds :: "ivec2 \<Rightarrow> ivec2 \<Rightarrow> bool" where
  "in_bounds dims p = (0 \<le> fst p \<and> fst p < fst dims \<and> 0 \<le> snd p \<and> snd p < snd dims)"

definition texel_index :: "usampler2D \<Rightarrow> ivec2 \<Rightarrow> nat" where
  "texel_index t p = nat (snd p) * tile_width t + nat (fst p)"

text \<open>
  \<open>texelFetch(sampler, p, 0).r\<close> on the tile texture: the stored texel, zero-extended.
  A fetch outside the image returns zero (the WebGL 2 rule for out-of-range fetches).
\<close>

definition texelFetch_u :: "usampler2D \<Rightarrow> ivec2 \<Rightarrow> uint" where
  "texelFetch_u t p =
     (if in_bounds (textureSize_u t) p \<and> texel_index t p < length (tile_texels t)
      then ucast (tile_texels t ! texel_index t p) else 0)"

text \<open>\<open>texelFetch\<close> on the palette: the four bytes of the texel, each divided by 255.\<close>

definition pal_byte :: "sampler2D \<Rightarrow> nat \<Rightarrow> rat" where
  "pal_byte t i = (if i < length (pal_bytes t) then of_nat (pal_bytes t ! i) / 255 else 0)"

definition texelFetch_p :: "sampler2D \<Rightarrow> ivec2 \<Rightarrow> vec4" where
  "texelFetch_p t p =
     (if in_bounds (textureSize_p t) p
      then (let i = (nat (snd p) * pal_width t + nat (fst p)) * 4
            in (pal_byte t i, pal_byte t (i + 1), pal_byte t (i + 2), pal_byte t (i + 3)))
      else (0, 0, 0, 0))"

text \<open>\<open>ivec2(floor(uv * vec2(textureDims)))\<close>, the texel under a texture coordinate.\<close>

definition pixelCoordOf :: "ivec2 \<Rightarrow> vec2 \<Rightarrow> ivec2" where
  "pixelCoordOf dims uv = (\<lfloor>fst uv * of_int (fst dims)\<rfloor>, \<lfloor>snd uv * of_int (snd dims)\<rfloor>)"

text \<open>
  \<open>texture(sampler, uv).r\<close> on the tile texture. Integer textures are sampled without
  filtering: the texel under \<open>uv\<close>, with the coordinate clamped to the edge.
\<close>

definition clamp_coord :: "ivec2 \<Rightarrow> ivec2 \<Rightarrow> ivec2" where
  "clamp_coord dims p = (max 0 (min (fst dims - 1) (fst p)), max 0 (min (snd dims - 1) (snd p)))"

definition texture_u :: "usampler2D \<Rightarrow> vec2 \<Rightarrow> uint" where
  "texture_u t uv =
     texelFetch_u t (clamp_coord (textureSize_u t) (pixelCoordOf (textureSize_u t) uv))"

definition mix :: "vec4 \<Rightarrow> vec4 \<Rightarrow> rat \<Rightarrow> vec4" where
  "mix x y a =
     (case x of (x0, x1, x2, x3) \<Rightarrow> case y of (y0, y1, y2, y3) \<Rightarrow>
        (x0 * (1 - a) + y0 * a, x1 * (1 - a) + y1 * a,
         x2 * (1 - a) + y2 * a, x3 * (1 - a) + y3 * a))"

subsection \<open>Terrain shading implementation\<close>

definition UNOWNED_TERRITORY_ID :: uint where
  "UNOWNED_TERRITORY_ID = 0"

definition OWNER_ID_MASK :: uint where
  "OWNER_ID_MASK = push_bit 12 1 - 1"

definition FALLOUT_MASK :: uint where
  "FALLOUT_MASK = push_bit 13 1"

definition DEFENSE_BONUS_MASK :: uint where
  "DEFENSE_BONUS_MASK = push_bit 14 1"

record TileData =
  ownerId :: uint
  isFallout :: bool
  hasDefenseBonus :: bool

definition DecodeTileData :: "uint \<Rightarrow> TileData" where
  "DecodeTileData bits =
     \<lparr> ownerId = bits AND OWNER_ID_MASK,
       isFallout = (bits AND FALLOUT_MASK \<noteq> 0),
       hasDefenseBonus = (bits AND DEFENSE_BONUS_MASK \<noteq> 0) \<rparr>"

definition ThisTile :: "fragment_input \<Rightarrow> TileData" where
  "ThisTile env = DecodeTileData (texture_u (u_tileTexture env) (v_texCoord env))"

definition DebugDrawTileData :: "fragment_input \<Rightarrow> vec4 \<Rightarrow> vec4" where
  "DebugDrawTileData env inColor =
     (let debugTileSize = 4;
          pixelCoord = pixelCoordOf (textureSize_u (u_tileTexture env)) (v_texCoord env);
          stipple = (drop_bit debugTileSize (snd pixelCoord)
                       XOR drop_bit debugTileSize (fst pixelCoord)) AND 1
      in if stipple = 0
         then (let tileData = ThisTile env;
                   debugColor = (of_nat (unat (ownerId tileData)) / 255,
                                 if isFallout tileData then 1 else 0,
                                 if hasDefenseBonus tileData then 1 else 0, 1)
               in mix inColor debugColor (1 / 2))
         else inColor)"

definition isBorder :: "fragment_input \<Rightarrow> vec2 \<Rightarrow> uint \<Rightarrow> bool" where
  "isBorder env uv oid =
     (let t = u_tileTexture env;
          texel_xy = pixelCoordOf (textureSize_u t) uv;
          n0 = texelFetch_u t (fst texel_xy - 1, snd texel_xy) AND OWNER_ID_MASK;
          n1 = texelFetch_u t (fst texel_xy + 1, snd texel_xy) AND OWNER_ID_MASK;
          n2 = texelFetch_u t (fst texel_xy, snd texel_xy - 1) AND OWNER_ID_MASK;
          n3 = texelFetch_u t (fst texel_xy, snd texel_xy + 1) AND OWNER_ID_MASK;
          matches = [n0 = oid, n1 = oid, n2 = oid, n3 = oid]
      in \<not> list_all (\<lambda>m. m) matches)"

definition PLAYER_COLOR_TERRITORY :: uint where
  "PLAYER_COLOR_TERRITORY = 0"

definition PLAYER_COLOR_TEAM :: uint where
  "PLAYER_COLOR_TEAM = 1"

definition PLAYER_COLOR_BORDER :: uint where
  "PLAYER_COLOR_BORDER = 3"

definition PLAYER_COLOR_DEFENSE_BONUS_BORDER_LIGHT :: uint where
  "PLAYER_COLOR_DEFENSE_BONUS_BORDER_LIGHT = 4"

definition PLAYER_COLOR_DEFENSE_BONUS_BORDER_DARK :: uint where
  "PLAYER_COLOR_DEFENSE_BONUS_BORDER_DARK = 5"

definition getPlayerColor :: "fragment_input \<Rightarrow> uint \<Rightarrow> uint \<Rightarrow> vec4" where
  "getPlayerColor env oid row =
     (let pixelCoord = (sint oid, sint row);
          paletteColor = texelFetch_p (u_paletteTexture env) pixelCoord;
          alpha = (if row \<ge> PLAYER_COLOR_BORDER then u_borderAlpha env
                   else u_territoryAlpha env)
      in case paletteColor of (r, g, b, a) \<Rightarrow> (r, g, b, alpha))"

definition calculateDefendedBorderColor :: "fragment_input \<Rightarrow> uint \<Rightarrow> vec2 \<Rightarrow> vec4" where
  "calculateDefendedBorderColor env oid uv =
     (let pixelCoord = pixelCoordOf (textureSize_u (u_tileTexture env)) uv;
          stipple = (snd pixelCoord XOR fst pixelCoord) AND 1;
          paletteRow = (if stipple = 0 then PLAYER_COLOR_DEFENSE_BONUS_BORDER_LIGHT
                        else PLAYER_COLOR_DEFENSE_BONUS_BORDER_DARK)
      in getPlayerColor env oid paletteRow)"

definition calculateBorderColor :: "fragment_input \<Rightarrow> TileData \<Rightarrow> vec2 \<Rightarrow> vec4" where
  "calculateBorderColor env tileData uv =
     (if u_hasFocusedPlayer env > 0 \<and> ownerId tileData = word_of_int (u_focusedPlayerId env)
      then (case u_focusedBorderColor env of (r, g, b) \<Rightarrow> (r, g, b, u_territoryAlpha env))
      else if hasDefenseBonus tileData
      then calculateDefendedBorderColor env (ownerId tileData) uv
      else getPlayerColor env (ownerId tileData) PLAYER_COLOR_BORDER)"

definition territoryColor :: "fragment_input \<Rightarrow> vec4" where
  "territoryColor env =
     (let thisTile = ThisTile env;
          result =
            (if isFallout thisTile
             then (case u_falloutColor env of (r, g, b) \<Rightarrow> (r, g, b, u_territoryAlpha env))
             else if ownerId thisTile = UNOWNED_TERRITORY_ID
             then (0, 0, 0, 0)
             else if isBorder env (v_texCoord env) (ownerId thisTile)
             then calculateBorderColor env thisTile (v_texCoord env)
             else getPlayerColor env (ownerId thisTile) PLAYER_COLOR_TERRITORY)
      in if debug_draw_tiles env then DebugDrawTileData env result else result)"

text \<open>The debug view of the palette and the shader's entry point.\<close>

definition DebugDrawPalette :: "fragment_input \<Rightarrow> vec4 \<Rightarrow> vec2 \<Rightarrow> vec4" where
  "DebugDrawPalette env inColor offset =
     (let debugTileSize = 1;
          textureDims = textureSize_u (u_tileTexture env);
          pixelCoord0 = pixelCoordOf textureDims (v_texCoord env);
          paletteTextureDims = textureSize_p (u_paletteTexture env);
          pixelCoord = (drop_bit debugTileSize (fst pixelCoord0),
                        drop_bit debugTileSize (snd pixelCoord0))
      in if (fst pixelCoord < 0 \<or> snd pixelCoord < 0)
            \<or> (fst pixelCoord \<ge> fst paletteTextureDims \<or> snd pixelCoord \<ge> snd paletteTextureDims)
         then inColor
         else (case texelFetch_p (u_paletteTexture env) pixelCoord of
                 (r, g, b, a) \<Rightarrow> (r, g, b, 1)))"

definition main :: "fragment_input \<Rightarrow> vec4" where
  "main env =
     (let fragColor = territoryColor env
      in if debug_draw_palette env then DebugDrawPalette env fragColor (0, 0) else fragColor)"

section \<open>JavaScript values\<close>

text \<open>
  A JavaScript number is a finite value or NaN. Finite values are exact rationals: every
  finite double is one, and the conversions below (truncation, wrap-around into a byte)
  are defined on the mathematical value. The infinities are left out; like NaN they are
  stored as 0 by a typed array.
\<close>

datatype jsnum = Fin rat | NaN

datatype jsval = Undefined | Num jsnum

fun ToNumber :: "jsval \<Rightarrow> jsnum" where
  "ToNumber Undefined = NaN"
| "ToNumber (Num n) = n"

fun js_mul :: "jsnum \<Rightarrow> jsnum \<Rightarrow> jsnum" where
  "js_mul (Fin x) (Fin y) = Fin (x * y)"
| "js_mul _ _ = NaN"

fun js_add :: "jsnum \<Rightarrow> jsnum \<Rightarrow> jsnum" where
  "js_add (Fin x) (Fin y) = Fin (x + y)"
| "js_add _ _ = NaN"

fun js_div :: "jsnum \<Rightarrow> rat \<Rightarrow> jsnum" where
  "js_div (Fin x) d = Fin (x / d)"
| "js_div NaN d = NaN"

definition js_trunc :: "rat \<Rightarrow> int" where
  "js_trunc q = (if 0 \<le> q then \<lfloor>q\<rfloor> else \<lceil>q\<rceil>)"

text \<open>The conversions of a typed array store: \<open>ToUint8\<close> and \<open>ToUint16\<close>.\<close>

fun ToUint8 :: "jsnum \<Rightarrow> nat" where
  "ToUint8 NaN = 0"
| "ToUint8 (Fin q) = nat (js_trunc q mod 256)"

fun ToUint16 :: "jsnum \<Rightarrow> nat" where
  "ToUint16 NaN = 0"
| "ToUint16 (Fin q) = nat (js_trunc q mod 65536)"

text \<open>\<open>x | 0\<close>: \<open>ToInt32\<close>, the truncated value wrapped into the signed 32-bit range.\<close>

fun ToInt32 :: "jsnum \<Rightarrow> jsnum" where
  "ToInt32 NaN = Fin 0"
| "ToInt32 (Fin q) =
     (let m = js_trunc q mod 4294967296
      in Fin (of_int (if m \<ge> 2147483648 then m - 4294967296 else m)))"

fun Math_floor :: "jsnum \<Rightarrow> jsnum" where
  "Math_floor NaN = NaN"
| "Math_floor (Fin q) = Fin (of_int \<lfloor>q\<rfloor>)"

fun Math_max0 :: "jsnum \<Rightarrow> jsnum" where
  "Math_max0 NaN = NaN"
| "Math_max0 (Fin q) = Fin (max 0 q)"

fun truthy :: "jsnum \<Rightarrow> bool" where
  "truthy NaN = False"
| "truthy (Fin q) = (q \<noteq> 0)"

fun js_less0 :: "jsnum \<Rightarrow> bool" where
  "js_less0 NaN = False"
| "js_less0 (Fin q) = (q < 0)"

datatype js_error =
    TypeError
  | RangeError
  | IncompatibleBytesType
  | UnsupportedFloat32ArrayLength nat
  | UnsupportedInt32ArrayLength nat
  | ScalarIntoVectorField
  | ExpectedValues nat nat
  | UnsupportedArrayLength nat
  | NoUniformInfoAvailable
  | NoLocationAvailable
  | UnsupportedBooleanUniformType
  | UnsupportedUniformType

text \<open>The two kinds of typed array a texture buffer can be, with their elements.\<close>

datatype TypedArray = Uint8Array "nat list" | Uint16Array "nat list"

text \<open>
  \<open>array[key] = v\<close> on a typed array: the element is stored, converted, when the key is
  an integer index inside the array; for any other numeric key (NaN, a fraction, a
  negative or too large index) nothing is stored.
\<close>

definition is_index :: "jsnum \<Rightarrow> nat \<Rightarrow> bool" where
  "is_index key n = (case key of NaN \<Rightarrow> False
                      | Fin q \<Rightarrow> q = of_int \<lfloor>q\<rfloor> \<and> 0 \<le> q \<and> nat \<lfloor>q\<rfloor> < n)"

definition index_of :: "jsnum \<Rightarrow> nat" where
  "index_of key = (case key of NaN \<Rightarrow> 0 | Fin q \<Rightarrow> nat \<lfloor>q\<rfloor>)"

fun typed_store :: "TypedArray \<Rightarrow> jsnum \<Rightarrow> jsnum \<Rightarrow> TypedArray" where
  "typed_store (Uint8Array xs) key v =
     (if is_index key (length xs) then Uint8Array (xs[index_of key := ToUint8 v])
      else Uint8Array xs)"
| "typed_store (Uint16Array xs) key v =
     (if is_index key (length xs) then Uint16Array (xs[index_of key := ToUint16 v])
      else Uint16Array xs)"

text \<open>
  \<open>target.set(source, offset)\<close> on typed arrays of one kind: a RangeError when the source
  does not fit behind the offset, else the elements are copied.
\<close>

definition typed_set :: "nat list \<Rightarrow> nat list \<Rightarrow> nat \<Rightarrow> js_error + nat list" where
  "typed_set target source offset =
     (if offset + length source > length target then Inl RangeError
      else Inr (take offset target @ source @ drop (offset + length source) target))"

text \<open>\<open>n[i]\<close> on a primitive number: numbers have no indexed properties.\<close>

definition number_at :: "nat \<Rightarrow> nat \<Rightarrow> jsval" where
  "number_at n i = Undefined"

section \<open>TextureData: the CPU copy of a texture\<close>

datatype GLdatatype = UNSIGNED_BYTE | UNSIGNED_SHORT | OTHER_DATATYPE nat

record TextureData =
  gpuTexture :: "nat option"
  width :: nat
  height :: nat
  bpp :: nat
  stride :: nat
  bytes :: TypedArray
  format :: nat
  internalFormat :: nat
  texDatatype :: GLdatatype

text \<open>The constructor.\<close>

definition new_TextureData ::
  "nat \<Rightarrow> nat \<Rightarrow> nat \<Rightarrow> nat \<Rightarrow> nat \<Rightarrow> GLdatatype \<Rightarrow> TextureData" where
  "new_TextureData w h b ifmt fmt dt =
     (let stride0 = b * w;
          totalBytes = h * stride0
      in \<lparr> gpuTexture = None, width = w, height = h, bpp = b, stride = stride0,
           bytes = (if dt = UNSIGNED_SHORT then Uint16Array (replicate totalBytes 0)
                    else Uint8Array (replicate totalBytes 0)),
           format = fmt, internalFormat = ifmt, texDatatype = dt \<rparr>)"

text \<open>\<open>getRowIndex\<close> returns \<open>row * this.stride[0]\<close>, where \<open>stride\<close> is a number.\<close>

definition getRowIndex :: "TextureData \<Rightarrow> nat \<Rightarrow> jsnum" where
  "getRowIndex td row = js_mul (Fin (of_nat row)) (ToNumber (number_at (stride td) 0))"

text \<open>\<open>setBytes\<close> copies to position 0 in both branches; its \<open>offset\<close> is not used.\<close>

definition setBytes :: "TextureData \<Rightarrow> TypedArray \<Rightarrow> jsnum \<Rightarrow> js_error + TextureData" where
  "setBytes td src offset =
     (case (src, bytes td) of
        (Uint8Array s, Uint8Array t) \<Rightarrow>
          (case typed_set t s 0 of Inl e \<Rightarrow> Inl e
           | Inr t' \<Rightarrow> Inr (td\<lparr>bytes := Uint8Array t'\<rparr>))
      | (Uint16Array s, Uint16Array t) \<Rightarrow>
          (case typed_set t s 0 of Inl e \<Rightarrow> Inl e
           | Inr t' \<Rightarrow> Inr (td\<lparr>bytes := Uint16Array t'\<rparr>))
      | _ \<Rightarrow> Inl IncompatibleBytesType)"

definition setRow :: "TextureData \<Rightarrow> nat \<Rightarrow> nat list \<Rightarrow> js_error + TextureData" where
  "setRow td row data = setBytes td (Uint8Array data) (getRowIndex td row)"

definition setPixelBytes :: "TextureData \<Rightarrow> nat \<Rightarrow> nat \<Rightarrow> nat list \<Rightarrow> js_error + TextureData" where
  "setPixelBytes td x y bs =
     (let index = js_add (getRowIndex td y) (Fin (of_nat (x * bpp td)))
      in setBytes td (Uint8Array bs) index)"

text \<open>The \<open>RgbaColor\<close> of colord: the fields \<open>r\<close>, \<open>g\<close>, \<open>b\<close> and \<open>a\<close>.\<close>

record RgbaColor =
  rgba_r :: jsnum
  rgba_g :: jsnum
  rgba_b :: jsnum
  rgba_a :: jsnum

definition setPixelRgba :: "TextureData \<Rightarrow> nat \<Rightarrow> nat \<Rightarrow> RgbaColor \<Rightarrow> TextureData" where
  "setPixelRgba td x y rgba =
     (let index = js_add (getRowIndex td y) (Fin (of_nat (x * bpp td)));
          b0 = typed_store (bytes td) (js_add index (Fin 0)) (rgba_r rgba);
          b1 = typed_store b0 (js_add index (Fin 1)) (rgba_g rgba);
          b2 = typed_store b1 (js_add index (Fin 2)) (rgba_b rgba);
          b3 = typed_store b2 (js_add index (Fin 3)) (rgba_a rgba)
      in td\<lparr>bytes := b3\<rparr>)"

text \<open>A \<open>Colord\<close> colour is its \<open>rgba\<close> record.\<close>

definition setPixelColord :: "TextureData \<Rightarrow> nat \<Rightarrow> nat \<Rightarrow> RgbaColor \<Rightarrow> TextureData" where
  "setPixelColord td x y color = setPixelRgba td x y color"


section \<open>Uniform values\<close>

text \<open>
  An object with an \<open>rgba\<close> property as the uniform setter sees it: the channels are
  numbers, and the alpha may be missing.
\<close>

record RgbaLike =
  like_r :: jsnum
  like_g :: jsnum
  like_b :: jsnum
  like_a :: jsval

definition rgba_view :: "RgbaColor \<Rightarrow> RgbaLike" where
  "rgba_view c = \<lparr> like_r = rgba_r c, like_g = rgba_g c, like_b = rgba_b c,
                   like_a = Num (rgba_a c) \<rparr>"

text \<open>
  What a template literal does with a \<open>value\<close> placed in it: the conversion to a string
  gives a string, or it throws. It throws a TypeError for a Symbol and for an object that has no
  prototype (\<open>Object.create(null)\<close>), and whatever a \<open>toString\<close> of the object's own throws.
  The string itself is not kept.
\<close>

datatype string_conversion = Converts | Throws js_error

text \<open>
  The objects a setter can be given, told apart as the setter tells them apart at run
  time. \<open>ColordInstance\<close> is an instance of colord's class; \<open>RgbaObject\<close> is any other object
  with an \<open>rgba\<close> property, \<open>None\<close> when that property is null or undefined, so that reading
  a channel of it is a TypeError. \<open>PlainObject\<close> is an object without an \<open>rgba\<close> property; its
  argument tells whether its \<open>constructor\<close> property is something other than null and
  undefined, so that \<open>value.constructor.name\<close> can be read (an object without a prototype
  has no \<open>constructor\<close>).
\<close>

datatype js_object =
    Float32Array "jsnum list"
  | Int32Array "jsnum list"
  | NumberArray "jsnum list"
  | ColordInstance RgbaColor
  | RgbaObject "RgbaLike option"
  | PlainObject bool

text \<open>
  The values a setter can be given at run time: a number, a boolean, an object with what
  its conversion to a string does, and \<open>VOther\<close>, whatever is left (null, undefined, a
  string and a function, which convert unless a function has a \<open>toString\<close> of its own that
  throws, and a Symbol, which does not convert).
\<close>

datatype UniformValue =
    VNumber jsnum
  | VBoolean bool
  | VObject js_object string_conversion
  | VOther string_conversion

fun ToString :: "UniformValue \<Rightarrow> string_conversion" where
  "ToString (VNumber x) = Converts"
| "ToString (VBoolean c) = Converts"
| "ToString (VObject ob conversion) = conversion"
| "ToString (VOther conversion) = conversion"

text \<open>
  The object members of the \<open>UniformValue\<close> union as they are normally built (a typed array,
  an array literal, a colord colour, an object literal): their conversion to a string is
  the built-in one, which gives a string.
\<close>

abbreviation VFloat32Array :: "jsnum list \<Rightarrow> UniformValue" where
  "VFloat32Array xs \<equiv> VObject (Float32Array xs) Converts"

abbreviation VInt32Array :: "jsnum list \<Rightarrow> UniformValue" where
  "VInt32Array xs \<equiv> VObject (Int32Array xs) Converts"

abbreviation VArray :: "jsnum list \<Rightarrow> UniformValue" where
  "VArray xs \<equiv> VObject (NumberArray xs) Converts"

abbreviation VColord :: "RgbaColor \<Rightarrow> UniformValue" where
  "VColord c \<equiv> VObject (ColordInstance c) Converts"

abbreviation VRgbaObject :: "RgbaLike \<Rightarrow> UniformValue" where
  "VRgbaObject rgba \<equiv> VObject (RgbaObject (Some rgba)) Converts"

text \<open>
  \<open>record[key] = value\<close> on a plain object whose entries are kept in insertion order: an
  existing key keeps its place, a new key goes last.
\<close>

fun assign :: "(string \<times> 'v) list \<Rightarrow> string \<Rightarrow> 'v \<Rightarrow> (string \<times> 'v) list" where
  "assign [] k v = [(k, v)]"
| "assign ((k', v') # kvs) k v = (if k' = k then (k, v) # kvs else (k', v') # assign kvs k v)"

section \<open>ColorPalette: the palette texture of the players' colours\<close>

text \<open>
  The game view and the theme are not part of these sources: they are taken as given.
  A theme is an object (compared by identity, \<open>theme_ref\<close>) with its colour functions;
  a game view has a theme, its player views and the lookup of a player by small id.
\<close>

record PlayerView =
  smallID :: nat
  playerName :: string

record DefendedBorderColors =
  light :: RgbaColor
  dark :: RgbaColor

record Theme =
  theme_ref :: nat
  theme_territoryColor :: "PlayerView \<Rightarrow> RgbaColor"
  theme_specialBuildingColor :: "PlayerView \<Rightarrow> RgbaColor"
  theme_railroadColor :: "PlayerView \<Rightarrow> RgbaColor"
  theme_borderColor :: "PlayerView \<Rightarrow> RgbaColor"
  theme_defendedBorderColors :: "PlayerView \<Rightarrow> DefendedBorderColors"
  theme_focusedBorderColor :: RgbaColor
  theme_falloutColor :: RgbaColor

record GameView =
  config_theme :: Theme
  playerViews :: "PlayerView list"
  playerBySmallID :: "nat \<Rightarrow> PlayerView"

datatype 'a reference = JsUndefined | JsNull | Object 'a

definition MAX_UNIQUE_PLAYER_COLORS :: nat where
  "MAX_UNIQUE_PLAYER_COLORS = push_bit 12 1"

definition PALETTE_TEXTURE_HEIGHT :: nat where
  "PALETTE_TEXTURE_HEIGHT = 6"

record ColorPalette =
  game :: "GameView reference"
  uniforms :: "(string \<times> UniformValue) list"
  needsGpuUpload :: bool
  previousTheme :: "nat option"
  previousPlayerCount :: "nat option"
  textureData :: "TextureData option"

text \<open>A palette object as its field initialisers leave it.\<close>

definition new_ColorPalette :: ColorPalette where
  "new_ColorPalette =
     \<lparr> game = JsUndefined, uniforms = [], needsGpuUpload = False, previousTheme = None,
       previousPlayerCount = None, textureData = None \<rparr>"

definition currentTheme :: "ColorPalette \<Rightarrow> js_error + Theme" where
  "currentTheme cp = (case game cp of Object gv \<Rightarrow> Inr (config_theme gv) | _ \<Rightarrow> Inl TypeError)"

definition currentPlayerCount :: "ColorPalette \<Rightarrow> js_error + nat" where
  "currentPlayerCount cp =
     (case game cp of Object gv \<Rightarrow> Inr (length (playerViews gv)) | _ \<Rightarrow> Inl TypeError)"

definition needsCpuUpdate :: "ColorPalette \<Rightarrow> js_error + bool" where
  "needsCpuUpdate cp =
     (case currentTheme cp of
        Inl e \<Rightarrow> Inl e
      | Inr th \<Rightarrow>
          if Some (theme_ref th) = previousTheme cp
          then (case currentPlayerCount cp of
                  Inl e \<Rightarrow> Inl e
                | Inr n \<Rightarrow> if Some n = previousPlayerCount cp then Inr False else Inr True)
          else Inr True)"

text \<open>The calls of the theme that \<open>updateCpuData\<close> makes, in order.\<close>

datatype theme_call =
    Call_territoryColor PlayerView
  | Call_specialBuildingColor PlayerView
  | Call_railroadColor PlayerView
  | Call_borderColor PlayerView
  | Call_defendedBorderColors PlayerView
  | Call_focusedBorderColor
  | Call_falloutColor

text \<open>The four stores of one colour, at \<open>base + 0\<close> to \<open>base + 3\<close>.\<close>

definition store_rgba :: "TypedArray \<Rightarrow> nat \<Rightarrow> RgbaColor \<Rightarrow> TypedArray" where
  "store_rgba bs base c =
     (let b0 = typed_store bs (Fin (of_nat (base + 0))) (rgba_r c);
          b1 = typed_store b0 (Fin (of_nat (base + 1))) (rgba_g c);
          b2 = typed_store b1 (Fin (of_nat (base + 2))) (rgba_b c)
      in typed_store b2 (Fin (of_nat (base + 3))) (rgba_a c))"

text \<open>The body of the loop over the small ids: one column of the palette.\<close>

definition palette_column ::
  "Theme \<Rightarrow> GameView \<Rightarrow> nat \<Rightarrow> nat \<Rightarrow> nat \<Rightarrow> TypedArray \<Rightarrow> TypedArray" where
  "palette_column theme gv stride0 bpp0 smallId bs =
     (let row_player_color = 0 * stride0;
          row_building_color = 1 * stride0;
          row_railroad = 2 * stride0;
          row_border_undefended = 3 * stride0;
          row_border_defended_light = 4 * stride0;
          row_border_defended_dark = 5 * stride0;
          x = smallId;
          player = playerBySmallID gv smallId;
          territoryColor0 = theme_territoryColor theme player;
          specialBuildingColor = theme_specialBuildingColor theme player;
          railroadColor = theme_railroadColor theme player;
          borderColor = theme_borderColor theme player;
          defendedBorderColors = theme_defendedBorderColors theme player;
          b0 = store_rgba bs (row_player_color + x * bpp0) territoryColor0;
          b1 = store_rgba b0 (row_building_color + x * bpp0) specialBuildingColor;
          b2 = store_rgba b1 (row_railroad + x * bpp0) railroadColor;
          b3 = store_rgba b2 (row_border_undefended + x * bpp0) borderColor;
          b4 = store_rgba b3 (row_border_defended_light + x * bpp0) (light defendedBorderColors)
      in store_rgba b4 (row_border_defended_dark + x * bpp0) (dark defendedBorderColors))"

definition column_calls :: "GameView \<Rightarrow> nat \<Rightarrow> theme_call list" where
  "column_calls gv smallId =
     (let player = playerBySmallID gv smallId
      in [Call_territoryColor player, Call_specialBuildingColor player,
          Call_railroadColor player, Call_borderColor player,
          Call_defendedBorderColors player])"

text \<open>\<open>for (let smallId = 1; smallId <= paletteMaxColor; smallId++)\<close>, entered at \<open>smallId\<close>.\<close>

function palette_loop ::
  "Theme \<Rightarrow> GameView \<Rightarrow> nat \<Rightarrow> nat \<Rightarrow> nat \<Rightarrow> nat \<Rightarrow> TypedArray \<times> theme_call list
     \<Rightarrow> TypedArray \<times> theme_call list" where
  "palette_loop theme gv stride0 bpp0 paletteMaxColor smallId st =
     (if smallId \<le> paletteMaxColor
      then palette_loop theme gv stride0 bpp0 paletteMaxColor (Suc smallId)
             (palette_column theme gv stride0 bpp0 smallId (fst st),
              snd st @ column_calls gv smallId)
      else st)"
  by pat_completeness auto
termination
  by (relation "measure (\<lambda>(theme, gv, stride0, bpp0, paletteMaxColor, smallId, st).
                  Suc paletteMaxColor - smallId)") auto

declare palette_loop.simps [simp del]

text \<open>\<open>players.reduce((max, player) => Math.max(max, player.smallID()), 0)\<close>\<close>

definition maxSmallId_of :: "PlayerView list \<Rightarrow> nat" where
  "maxSmallId_of players = foldl (\<lambda>m player. max m (smallID player)) 0 players"

text \<open>
  \<open>updateCpuData\<close>. The result is the palette object after the call and the theme calls the
  call made; a TypeError is the call on an undefined game.
\<close>

definition updateCpuData :: "ColorPalette \<Rightarrow> js_error + ColorPalette \<times> theme_call list" where
  "updateCpuData cp =
     (if game cp = JsNull then Inr (cp, [])
      else case textureData cp of
        None \<Rightarrow> Inr (cp, [])
      | Some td \<Rightarrow>
         (case needsCpuUpdate cp of
            Inl e \<Rightarrow> Inl e
          | Inr False \<Rightarrow> Inr (cp, [])
          | Inr True \<Rightarrow>
             (case game cp of
                Object gv \<Rightarrow>
                  (let theme = config_theme gv;
                       playerCount = length (playerViews gv);
                       width0 = width td;
                       players = playerViews gv;
                       maxSmallId = maxSmallId_of players;
                       bpp0 = 4;
                       stride0 = width0 * bpp0;
                       paletteMaxColor = min width0 maxSmallId;
                       (bs, calls) = palette_loop theme gv stride0 bpp0 paletteMaxColor 1
                                       (bytes td, []);
                       u1 = assign (uniforms cp) ''u_borderAlpha'' (VNumber (Fin (255 / 255)));
                       u2 = assign u1 ''u_territoryAlpha'' (VNumber (Fin (150 / 255)));
                       u3 = assign u2 ''u_focusedBorderColor''
                              (VColord (theme_focusedBorderColor theme));
                       u4 = assign u3 ''u_falloutColor'' (VColord (theme_falloutColor theme))
                   in Inr (cp\<lparr> previousTheme := Some (theme_ref theme),
                               previousPlayerCount := Some playerCount,
                               textureData := Some (td\<lparr>bytes := bs\<rparr>),
                               uniforms := u4,
                               needsGpuUpload := True \<rparr>,
                           calls @ [Call_focusedBorderColor, Call_falloutColor]))
              | _ \<Rightarrow> Inl TypeError)))"

text \<open>\<open>init\<close>: the palette texture is 4096 texels wide and 6 high, four bytes a texel.\<close>

definition init :: "ColorPalette \<Rightarrow> GameView \<Rightarrow> js_error + ColorPalette \<times> theme_call list" where
  "init cp gv =
     updateCpuData
       (cp\<lparr> game := Object gv,
            textureData := Some (new_TextureData MAX_UNIQUE_PLAYER_COLORS PALETTE_TEXTURE_HEIGHT
                                   4 6408 6408 UNSIGNED_BYTE) \<rparr>)"

subsection \<open>Reading the palette back\<close>

text \<open>
  What the claims about the palette are stated with. \<open>texel_bytes\<close> reads the texel at
  column \<open>x\<close> and row \<open>y\<close> of a texture buffer, in the layout the class documents
  (\<open>stride\<close> bytes a row, \<open>bpp\<close> bytes a pixel); \<open>column_after\<close> is a column of the palette
  after a call. \<open>claimed_colors\<close> follows the words of the specification, not the code:
  the six colours of a player in the order of the palette rows (territory, special
  building, railroad, undefended border, defended border light and dark); \<open>rgba_bytes\<close> is
  a colour as four stored bytes.
\<close>

definition elements :: "TypedArray \<Rightarrow> nat list" where
  "elements arr = (case arr of Uint8Array xs \<Rightarrow> xs | Uint16Array xs \<Rightarrow> xs)"

definition texel_bytes :: "TextureData \<Rightarrow> nat \<Rightarrow> nat \<Rightarrow> nat list" where
  "texel_bytes td x y =
     map (\<lambda>k. elements (bytes td) ! (y * stride td + x * bpp td + k)) [0..<bpp td]"

definition column_after ::
  "js_error + ColorPalette \<times> theme_call list \<Rightarrow> nat \<Rightarrow> nat list list option" where
  "column_after res x =
     (case res of
        Inl e \<Rightarrow> None
      | Inr (cp', calls) \<Rightarrow>
          (case textureData cp' of
             None \<Rightarrow> None
           | Some td' \<Rightarrow> Some (map (texel_bytes td' x) [0..<height td'])))"

definition rgba_bytes :: "RgbaColor \<Rightarrow> nat list" where
  "rgba_bytes c = [ToUint8 (rgba_r c), ToUint8 (rgba_g c), ToUint8 (rgba_b c), ToUint8 (rgba_a c)]"

definition claimed_colors :: "Theme \<Rightarrow> PlayerView \<Rightarrow> RgbaColor list" where
  "claimed_colors theme player =
     [theme_territoryColor theme player, theme_specialBuildingColor theme player,
      theme_railroadColor theme player, theme_borderColor theme player,
      light (theme_defendedBorderColors theme player),
      dark (theme_defendedBorderColors theme player)]"


section \<open>Uniform upload\<close>

text \<open>
  The declared types of active uniforms (the \<open>GLenum\<close> values the setters test for, and
  \<open>GL_OTHER_TYPE\<close> for any other), and what introspection reports of a uniform.
\<close>

datatype GLtype =
    GL_FLOAT | GL_FLOAT_VEC2 | GL_FLOAT_VEC3 | GL_FLOAT_VEC4
  | GL_INT | GL_INT_VEC2 | GL_INT_VEC3 | GL_INT_VEC4
  | GL_UNSIGNED_INT | GL_UNSIGNED_INT_VEC2 | GL_UNSIGNED_INT_VEC3 | GL_UNSIGNED_INT_VEC4
  | GL_BOOL | GL_BOOL_VEC2 | GL_BOOL_VEC3 | GL_BOOL_VEC4
  | GL_FLOAT_MAT2 | GL_FLOAT_MAT3 | GL_FLOAT_MAT4
  | GL_SAMPLER_2D | GL_SAMPLER_CUBE | GL_SAMPLER_2D_ARRAY | GL_UNSIGNED_INT_SAMPLER_2D | GL_INT_SAMPLER_2D
  | GL_OTHER_TYPE nat

record WebGLActiveInfo =
  info_name :: string
  info_size :: nat
  info_type :: GLtype

text \<open>
  The calls on the WebGL context, with the location (null or a location) and the numbers
  passed, and the lines written to the console. What a setter does is the list of its
  effects, in order.
\<close>

type_synonym location = "nat option"

datatype GLcall =
    uniform1f location jsnum
  | uniform2f location jsnum jsnum
  | uniform3f location jsnum jsnum jsnum
  | uniform4f location jsnum jsnum jsnum jsnum
  | uniform1i location jsnum
  | uniform2i location jsnum jsnum
  | uniform3i location jsnum jsnum jsnum
  | uniform4i location jsnum jsnum jsnum jsnum
  | uniform1ui location jsnum
  | uniform1fv location "jsnum list"
  | uniform2fv location "jsnum list"
  | uniform3fv location "jsnum list"
  | uniform4fv location "jsnum list"
  | uniformMatrix2fv location "jsnum list"
  | uniformMatrix3fv location "jsnum list"
  | uniformMatrix4fv location "jsnum list"
  | uniform1iv location "jsnum list"
  | uniform2iv location "jsnum list"
  | uniform3iv location "jsnum list"
  | uniform4iv location "jsnum list"
  | useProgram nat

datatype console_line =
    NoProgramBound string
  | ExceptionSettingUniform "string option" js_error
  | UnknownObjectType "string option"
  | FailedToSetUniform "string option"
  | ProgramMismatch
  | ExpectedProgram nat
  | CurrentlyBoundProgram "nat option"
  | NeedUseProgram
  | AutoBinding
  | UniformNotFound string

datatype effect = GL GLcall | ConsoleError console_line | ConsoleWarn console_line

text \<open>
  The context: whether it is a WebGL 2 context, the program in use, and, for each program,
  the location and the introspected info of each uniform name. The lookup of the info by
  name is a helper of WebGLUtils, which is not part of these sources: it is taken as given.
\<close>

record GLcontext =
  is_webgl2 :: bool
  CURRENT_PROGRAM :: "nat option"
  getUniformLocation :: "nat \<Rightarrow> string \<Rightarrow> nat option"
  getUniformInfoByName :: "nat \<Rightarrow> string \<Rightarrow> WebGLActiveInfo option"

text \<open>\<open>value[i]\<close> on an array of numbers, and \<open>name ?? uniformInfo?.name\<close>.\<close>

definition array_at :: "jsnum list \<Rightarrow> nat \<Rightarrow> jsval" where
  "array_at xs i = (if i < length xs then Num (xs ! i) else Undefined)"

definition shown_name :: "string option \<Rightarrow> WebGLActiveInfo option \<Rightarrow> string option" where
  "shown_name name uniformInfo =
     (case name of Some n \<Rightarrow> Some n | None \<Rightarrow> map_option info_name uniformInfo)"

definition name_or_unknown :: "string option \<Rightarrow> string" where
  "name_or_unknown name = (case name of Some n \<Rightarrow> n | None \<Rightarrow> ''unknown'')"

definition bool_to_int :: "bool \<Rightarrow> jsnum" where
  "bool_to_int c = (if c then Fin 1 else Fin 0)"

subsection \<open>The branches and the handler that are the same in both setters\<close>

definition set_Float32Array :: "location \<Rightarrow> jsnum list \<Rightarrow> js_error + effect list" where
  "set_Float32Array loc xs =
     (if length xs = 1 then Inr [GL (uniform1fv loc xs)]
      else if length xs = 2 then Inr [GL (uniform2fv loc xs)]
      else if length xs = 3 then Inr [GL (uniform3fv loc xs)]
      else if length xs = 4 then Inr [GL (uniform4fv loc xs)]
      else if length xs = 9 then Inr [GL (uniformMatrix3fv loc xs)]
      else if length xs = 16 then Inr [GL (uniformMatrix4fv loc xs)]
      else Inl (UnsupportedFloat32ArrayLength (length xs)))"

definition set_Int32Array :: "location \<Rightarrow> jsnum list \<Rightarrow> js_error + effect list" where
  "set_Int32Array loc xs =
     (if length xs = 1 then Inr [GL (uniform1iv loc xs)]
      else if length xs = 2 then Inr [GL (uniform2iv loc xs)]
      else if length xs = 3 then Inr [GL (uniform3iv loc xs)]
      else if length xs = 4 then Inr [GL (uniform4iv loc xs)]
      else Inl (UnsupportedInt32ArrayLength (length xs)))"

text \<open>
  The \<open>catch\<close> block, the same in both setters: one line on the console, built by a
  template literal from the name, the value, its type and the exception. The value is
  converted to a string there, outside any \<open>try\<close>; when that conversion throws, the
  exception leaves the setter.
\<close>

definition catch_block ::
  "UniformValue \<Rightarrow> WebGLActiveInfo option \<Rightarrow> string option \<Rightarrow> js_error
     \<Rightarrow> js_error + effect list" where
  "catch_block v uniformInfo name e =
     (case ToString v of
        Throws e' \<Rightarrow> Inl e'
      | Converts \<Rightarrow> Inr [ConsoleError (ExceptionSettingUniform (shown_name name uniformInfo) e)])"

text \<open>
  The last two branches, the same in both setters. An object without an \<open>rgba\<close> property
  is logged with its keys and \<open>value.constructor.name\<close>, a TypeError when the constructor
  is missing. Anything else is logged by a template literal that converts the value to a
  string.
\<close>

definition log_unknown_object ::
  "bool \<Rightarrow> WebGLActiveInfo option \<Rightarrow> string option \<Rightarrow> js_error + effect list" where
  "log_unknown_object has_constructor uniformInfo name =
     (if has_constructor
      then Inr [ConsoleError (UnknownObjectType (shown_name name uniformInfo))]
      else Inl TypeError)"

definition log_failed ::
  "string_conversion \<Rightarrow> WebGLActiveInfo option \<Rightarrow> string option \<Rightarrow> js_error + effect list" where
  "log_failed conversion uniformInfo name =
     (case conversion of
        Throws e \<Rightarrow> Inl e
      | Converts \<Rightarrow> Inr [ConsoleError (FailedToSetUniform (shown_name name uniformInfo))])"

subsection \<open>setUniform of UniformSetter.ts\<close>

text \<open>A number, with introspection: the switch on \<open>uniformInfo.type\<close>.\<close>

definition set_number :: "GLcontext \<Rightarrow> location \<Rightarrow> jsnum \<Rightarrow> GLtype \<Rightarrow> js_error + effect list" where
  "set_number gl loc v t =
     (if t = GL_SAMPLER_2D \<or> t = GL_SAMPLER_CUBE
         \<or> (is_webgl2 gl \<and> t = GL_SAMPLER_2D_ARRAY)
         \<or> (is_webgl2 gl \<and> t = GL_UNSIGNED_INT_SAMPLER_2D)
         \<or> (is_webgl2 gl \<and> t = GL_INT_SAMPLER_2D)
      then Inr [GL (uniform1i loc (Math_floor v))]
      else if t = GL_FLOAT then Inr [GL (uniform1f loc v)]
      else if t = GL_INT then Inr [GL (uniform1i loc (Math_floor v))]
      else if t = GL_INT_VEC2 \<or> t = GL_INT_VEC3 \<or> t = GL_INT_VEC4 then Inl ScalarIntoVectorField
      else if is_webgl2 gl \<and> t = GL_UNSIGNED_INT
      then Inr [GL (uniform1ui loc (Math_max0 (Math_floor v)))]
      else if t = GL_BOOL then Inr [GL (uniform1i loc (bool_to_int (truthy v)))]
      else Inr [])"

text \<open>An array by its length: the float vectors.\<close>

definition set_float_vector :: "location \<Rightarrow> jsnum list \<Rightarrow> js_error + effect list" where
  "set_float_vector loc xs =
     (if length xs = 2
      then Inr [GL (uniform2f loc (ToNumber (array_at xs 0)) (ToNumber (array_at xs 1)))]
      else if length xs = 3
      then Inr [GL (uniform3f loc (ToNumber (array_at xs 0)) (ToNumber (array_at xs 1))
                      (ToNumber (array_at xs 2)))]
      else if length xs = 4
      then Inr [GL (uniform4f loc (ToNumber (array_at xs 0)) (ToNumber (array_at xs 1))
                      (ToNumber (array_at xs 2)) (ToNumber (array_at xs 3)))]
      else Inl (UnsupportedArrayLength (length xs)))"

text \<open>An array, with introspection.\<close>

definition set_array :: "location \<Rightarrow> jsnum list \<Rightarrow> GLtype \<Rightarrow> js_error + effect list" where
  "set_array loc xs t =
     (if t = GL_INT_VEC2
      then (if length xs = 2
            then Inr [GL (uniform2i loc (Math_floor (ToNumber (array_at xs 0)))
                            (Math_floor (ToNumber (array_at xs 1))))]
            else Inl (ExpectedValues 2 (length xs)))
      else if t = GL_INT_VEC3
      then (if length xs = 3
            then Inr [GL (uniform3i loc (Math_floor (ToNumber (array_at xs 0)))
                            (Math_floor (ToNumber (array_at xs 1)))
                            (Math_floor (ToNumber (array_at xs 2))))]
            else Inl (ExpectedValues 3 (length xs)))
      else if t = GL_INT_VEC4
      then (if length xs = 4
            then Inr [GL (uniform4i loc (Math_floor (ToNumber (array_at xs 0)))
                            (Math_floor (ToNumber (array_at xs 1)))
                            (Math_floor (ToNumber (array_at xs 2)))
                            (Math_floor (ToNumber (array_at xs 3))))]
            else Inl (ExpectedValues 4 (length xs)))
      else set_float_vector loc xs)"

text \<open>An object with an \<open>rgba\<close> property: the fallback without a usable declared type.\<close>

definition set_rgba_fallback :: "location \<Rightarrow> RgbaLike \<Rightarrow> js_error + effect list" where
  "set_rgba_fallback loc rgba =
     (if like_a rgba = Undefined \<or> like_a rgba = Num (Fin 1) \<or> like_a rgba = Num (Fin 255)
      then Inr [GL (uniform3f loc (js_div (like_r rgba) 255) (js_div (like_g rgba) 255)
                      (js_div (like_b rgba) 255))]
      else Inr [GL (uniform4f loc (js_div (like_r rgba) 255) (js_div (like_g rgba) 255)
                      (js_div (like_b rgba) 255) (js_div (ToNumber (like_a rgba)) 255))])"

definition set_rgba :: "location \<Rightarrow> RgbaLike \<Rightarrow> GLtype \<Rightarrow> js_error + effect list" where
  "set_rgba loc rgba t =
     (if t = GL_FLOAT_VEC3
      then Inr [GL (uniform3f loc (js_div (like_r rgba) 255) (js_div (like_g rgba) 255)
                      (js_div (like_b rgba) 255))]
      else if t = GL_FLOAT_VEC4
      then (let alpha = (if like_a rgba \<noteq> Undefined then js_div (ToNumber (like_a rgba)) 255
                         else Fin 1)
            in Inr [GL (uniform4f loc (js_div (like_r rgba) 255) (js_div (like_g rgba) 255)
                          (js_div (like_b rgba) 255) alpha)])
      else if t = GL_INT_VEC3
      then Inr [GL (uniform3i loc (ToInt32 (like_r rgba)) (ToInt32 (like_g rgba))
                      (ToInt32 (like_b rgba)))]
      else if t = GL_INT_VEC4
      then (let alphaInt = (if like_a rgba \<noteq> Undefined then ToNumber (like_a rgba) else Fin 255)
            in Inr [GL (uniform4i loc (ToInt32 (like_r rgba)) (ToInt32 (like_g rgba))
                          (ToInt32 (like_b rgba)) (ToInt32 alphaInt))])
      else set_rgba_fallback loc rgba)"

text \<open>
  The body of the \<open>try\<close> block: \<open>Inl\<close> is an exception thrown in it, by a \<open>throw\<close>
  statement, by reading a property of null or undefined, or by a conversion to a string.
  The calls on the context are taken not to throw.
\<close>

definition setUniform_try ::
  "GLcontext \<Rightarrow> location \<Rightarrow> UniformValue \<Rightarrow> WebGLActiveInfo option \<Rightarrow> string option
     \<Rightarrow> js_error + effect list" where
  "setUniform_try gl loc v uniformInfo name =
     (if CURRENT_PROGRAM gl = None
      then Inr [ConsoleError (NoProgramBound (name_or_unknown name))]
      else case v of
        VObject (Float32Array xs) _ \<Rightarrow> set_Float32Array loc xs
      | VObject (Int32Array xs) _ \<Rightarrow> set_Int32Array loc xs
      | VNumber x \<Rightarrow>
          (case uniformInfo of
             Some ui \<Rightarrow> set_number gl loc x (info_type ui)
           | None \<Rightarrow> Inr [GL (uniform1f loc x)])
      | VBoolean c \<Rightarrow> Inr [GL (uniform1i loc (bool_to_int c))]
      | VObject (NumberArray xs) _ \<Rightarrow>
          (case uniformInfo of
             Some ui \<Rightarrow> set_array loc xs (info_type ui)
           | None \<Rightarrow> set_float_vector loc xs)
      | VObject (ColordInstance c) _ \<Rightarrow>
          (case uniformInfo of
             Some ui \<Rightarrow> set_rgba loc (rgba_view c) (info_type ui)
           | None \<Rightarrow> set_rgba_fallback loc (rgba_view c))
      | VObject (RgbaObject (Some rgba)) _ \<Rightarrow>
          (case uniformInfo of
             Some ui \<Rightarrow> set_rgba loc rgba (info_type ui)
           | None \<Rightarrow> set_rgba_fallback loc rgba)
      | VObject (RgbaObject None) _ \<Rightarrow> Inl TypeError
      | VObject (PlainObject has_constructor) _ \<Rightarrow>
          log_unknown_object has_constructor uniformInfo name
      | VOther conversion \<Rightarrow> log_failed conversion uniformInfo name)"

text \<open>
  \<open>setUniform\<close>: the \<open>try\<close> block and its \<open>catch\<close>. \<open>Inl\<close> is an exception that leaves the
  function.
\<close>

definition setUniform ::
  "GLcontext \<Rightarrow> location \<Rightarrow> UniformValue \<Rightarrow> WebGLActiveInfo option \<Rightarrow> string option
     \<Rightarrow> js_error + effect list" where
  "setUniform gl loc v uniformInfo name =
     (case setUniform_try gl loc v uniformInfo name of
        Inl e \<Rightarrow> catch_block v uniformInfo name e
      | Inr effects \<Rightarrow> Inr effects)"

subsection \<open>setUniform of the second file (part 000)\<close>

definition set_number_000 :: "location \<Rightarrow> jsnum \<Rightarrow> GLtype \<Rightarrow> js_error + effect list" where
  "set_number_000 loc v t =
     (if t = GL_SAMPLER_2D then Inr [GL (uniform1i loc (ToInt32 v))]
      else if t = GL_SAMPLER_CUBE then Inr [GL (uniform1i loc (ToInt32 v))]
      else if t = GL_SAMPLER_2D_ARRAY then Inr [GL (uniform1i loc (ToInt32 v))]
      else if t = GL_UNSIGNED_INT_SAMPLER_2D then Inr [GL (uniform1i loc (ToInt32 v))]
      else if t = GL_INT_SAMPLER_2D then Inr [GL (uniform1i loc (ToInt32 v))]
      else if t = GL_FLOAT then Inr [GL (uniform1f loc v)]
      else if t = GL_INT then Inr [GL (uniform1i loc (ToInt32 v))]
      else if t = GL_BOOL then Inr [GL (uniform1i loc (bool_to_int (truthy v)))]
      else if t = GL_INT_VEC2 then Inl ScalarIntoVectorField
      else if t = GL_INT_VEC3 then Inl ScalarIntoVectorField
      else if t = GL_INT_VEC4 then Inl ScalarIntoVectorField
      else if t = GL_UNSIGNED_INT
      then Inr [GL (uniform1ui loc (if js_less0 v then Fin 0 else ToInt32 v))]
      else Inr [])"

definition set_boolean_000 :: "location \<Rightarrow> bool \<Rightarrow> GLtype \<Rightarrow> js_error + effect list" where
  "set_boolean_000 loc c t =
     (if t = GL_BOOL then Inr [GL (uniform1i loc (bool_to_int c))]
      else if t = GL_BOOL_VEC2 then Inr [GL (uniform2i loc (bool_to_int c) (bool_to_int c))]
      else if t = GL_BOOL_VEC3
      then Inr [GL (uniform3i loc (bool_to_int c) (bool_to_int c) (bool_to_int c))]
      else if t = GL_BOOL_VEC4
      then Inr [GL (uniform4i loc (bool_to_int c) (bool_to_int c) (bool_to_int c)
                      (bool_to_int c))]
      else Inl UnsupportedBooleanUniformType)"

text \<open>An array: the switch is on the declared type alone; the length is not looked at.\<close>

definition set_array_000 :: "location \<Rightarrow> jsnum list \<Rightarrow> GLtype \<Rightarrow> js_error + effect list" where
  "set_array_000 loc xs t =
     (if t = GL_INT_VEC2
      then Inr [GL (uniform2i loc (ToInt32 (ToNumber (array_at xs 0)))
                      (ToInt32 (ToNumber (array_at xs 1))))]
      else if t = GL_INT_VEC3
      then Inr [GL (uniform3i loc (ToInt32 (ToNumber (array_at xs 0)))
                      (ToInt32 (ToNumber (array_at xs 1)))
                      (ToInt32 (ToNumber (array_at xs 2))))]
      else if t = GL_INT_VEC4
      then Inr [GL (uniform4i loc (ToInt32 (ToNumber (array_at xs 0)))
                      (ToInt32 (ToNumber (array_at xs 1)))
                      (ToInt32 (ToNumber (array_at xs 2)))
                      (ToInt32 (ToNumber (array_at xs 3))))]
      else if t = GL_FLOAT_VEC2
      then Inr [GL (uniform2f loc (ToNumber (array_at xs 0)) (ToNumber (array_at xs 1)))]
      else if t = GL_FLOAT_VEC3
      then Inr [GL (uniform3f loc (ToNumber (array_at xs 0)) (ToNumber (array_at xs 1))
                      (ToNumber (array_at xs 2)))]
      else if t = GL_FLOAT_VEC4
      then Inr [GL (uniform4f loc (ToNumber (array_at xs 0)) (ToNumber (array_at xs 1))
                      (ToNumber (array_at xs 2)) (ToNumber (array_at xs 3)))]
      else if t = GL_FLOAT_MAT2 then Inr [GL (uniformMatrix2fv loc xs)]
      else if t = GL_FLOAT_MAT3 then Inr [GL (uniformMatrix3fv loc xs)]
      else if t = GL_FLOAT_MAT4 then Inr [GL (uniformMatrix4fv loc xs)]
      else Inl (UnsupportedArrayLength (length xs)))"

text \<open>
  A colord colour and any other object with an \<open>rgba\<close> property: the two branches differ
  only in where \<open>| 0\<close> is applied to the integer alpha, which is applied again at the call.
\<close>

definition set_rgba_000 :: "location \<Rightarrow> RgbaLike \<Rightarrow> GLtype \<Rightarrow> js_error + effect list" where
  "set_rgba_000 loc rgba t =
     (let intAlpha = (if like_a rgba = Undefined then Fin 255
                      else js_mul (ToNumber (like_a rgba)) (Fin 255));
          floatAlpha = ToNumber (like_a rgba)
      in if t = GL_INT_VEC3
         then Inr [GL (uniform3i loc (ToInt32 (like_r rgba)) (ToInt32 (like_g rgba))
                         (ToInt32 (like_b rgba)))]
         else if t = GL_INT_VEC4
         then Inr [GL (uniform4i loc (ToInt32 (like_r rgba)) (ToInt32 (like_g rgba))
                         (ToInt32 (like_b rgba)) (ToInt32 intAlpha))]
         else if t = GL_FLOAT_VEC3
         then Inr [GL (uniform3f loc (js_div (like_r rgba) 255) (js_div (like_g rgba) 255)
                         (js_div (like_b rgba) 255))]
         else if t = GL_FLOAT_VEC4
         then Inr [GL (uniform4f loc (js_div (like_r rgba) 255) (js_div (like_g rgba) 255)
                         (js_div (like_b rgba) 255) floatAlpha)]
         else Inl UnsupportedUniformType)"

definition set_rgba_object_000 :: "location \<Rightarrow> RgbaLike \<Rightarrow> GLtype \<Rightarrow> js_error + effect list" where
  "set_rgba_object_000 loc rgba t =
     (let intAlpha = ToInt32 (if like_a rgba = Undefined then Fin 255
                              else js_mul (ToNumber (like_a rgba)) (Fin 255));
          floatAlpha = ToNumber (like_a rgba)
      in if t = GL_INT_VEC3
         then Inr [GL (uniform3i loc (ToInt32 (like_r rgba)) (ToInt32 (like_g rgba))
                         (ToInt32 (like_b rgba)))]
         else if t = GL_INT_VEC4
         then Inr [GL (uniform4i loc (ToInt32 (like_r rgba)) (ToInt32 (like_g rgba))
                         (ToInt32 (like_b rgba)) (ToInt32 intAlpha))]
         else if t = GL_FLOAT_VEC3
         then Inr [GL (uniform3f loc (js_div (like_r rgba) 255) (js_div (like_g rgba) 255)
                         (js_div (like_b rgba) 255))]
         else if t = GL_FLOAT_VEC4
         then Inr [GL (uniform4f loc (js_div (like_r rgba) 255) (js_div (like_g rgba) 255)
                         (js_div (like_b rgba) 255) floatAlpha)]
         else Inl UnsupportedUniformType)"

text \<open>
  The body of the \<open>try\<close> block. The constants \<open>GL\<close> and \<open>GL2\<close> read before it are the
  interface objects of a browser with WebGL 2, which the layer requires.
\<close>

definition setUniform_try_000 ::
  "GLcontext \<Rightarrow> location \<Rightarrow> UniformValue \<Rightarrow> WebGLActiveInfo option \<Rightarrow> string option
     \<Rightarrow> js_error + effect list" where
  "setUniform_try_000 gl loc v uniformInfo name =
     (if CURRENT_PROGRAM gl = None
      then Inr [ConsoleError (NoProgramBound (name_or_unknown name))]
      else case uniformInfo of
        None \<Rightarrow> Inl NoUniformInfoAvailable
      | Some ui \<Rightarrow>
          if loc = None then Inl NoLocationAvailable
          else case v of
            VObject (Float32Array xs) _ \<Rightarrow> set_Float32Array loc xs
          | VObject (Int32Array xs) _ \<Rightarrow> set_Int32Array loc xs
          | VNumber x \<Rightarrow> set_number_000 loc x (info_type ui)
          | VBoolean c \<Rightarrow> set_boolean_000 loc c (info_type ui)
          | VObject (NumberArray xs) _ \<Rightarrow> set_array_000 loc xs (info_type ui)
          | VObject (ColordInstance c) _ \<Rightarrow> set_rgba_000 loc (rgba_view c) (info_type ui)
          | VObject (RgbaObject (Some rgba)) _ \<Rightarrow> set_rgba_object_000 loc rgba (info_type ui)
          | VObject (RgbaObject None) _ \<Rightarrow> Inl TypeError
          | VObject (PlainObject has_constructor) _ \<Rightarrow>
              log_unknown_object has_constructor uniformInfo name
          | VOther conversion \<Rightarrow> log_failed conversion uniformInfo name)"

text \<open>\<open>setUniform\<close> of the second file: the \<open>try\<close> block and the same \<open>catch\<close>.\<close>

definition setUniform_000 ::
  "GLcontext \<Rightarrow> location \<Rightarrow> UniformValue \<Rightarrow> WebGLActiveInfo option \<Rightarrow> string option
     \<Rightarrow> js_error + effect list" where
  "setUniform_000 gl loc v uniformInfo name =
     (case setUniform_try_000 gl loc v uniformInfo name of
        Inl e \<Rightarrow> catch_block v uniformInfo name e
      | Inr effects \<Rightarrow> Inr effects)"


subsection \<open>The class UniformSetter, the same in both files\<close>

text \<open>
  The setter object: its context and program, its two caches (a name is absent, or cached
  with a location or info that may be null), and the effects it has had so far.
\<close>

record UniformSetter =
  gl_context :: GLcontext
  program :: nat
  locationCache :: "string \<rightharpoonup> nat option"
  uniformInfoCache :: "string \<rightharpoonup> WebGLActiveInfo option"
  effects :: "effect list"

definition ensureCorrectProgramBound :: "UniformSetter \<Rightarrow> UniformSetter" where
  "ensureCorrectProgramBound us =
     (let currentProgram = CURRENT_PROGRAM (gl_context us)
      in if currentProgram \<noteq> Some (program us)
         then us\<lparr> gl_context := (gl_context us)\<lparr> CURRENT_PROGRAM := Some (program us) \<rparr>,
                  effects := effects us @
                    [ConsoleError ProgramMismatch,
                     ConsoleError (ExpectedProgram (program us)),
                     ConsoleError (CurrentlyBoundProgram currentProgram),
                     ConsoleError NeedUseProgram,
                     ConsoleWarn AutoBinding,
                     GL (useProgram (program us))] \<rparr>
         else us)"

definition getLocation :: "UniformSetter \<Rightarrow> string \<Rightarrow> UniformSetter \<times> location" where
  "getLocation us name =
     (let us' =
            (if locationCache us name = None
             then (let loc = getUniformLocation (gl_context us) (program us) name;
                       us1 = us\<lparr> locationCache := (locationCache us)(name \<mapsto> loc) \<rparr>
                   in if loc = None
                      then us1\<lparr> effects := effects us1 @ [ConsoleWarn (UniformNotFound name)] \<rparr>
                      else us1)
             else us)
      in (us', case locationCache us' name of Some loc \<Rightarrow> loc | None \<Rightarrow> None))"

definition getUniformInfo :: "UniformSetter \<Rightarrow> string \<Rightarrow> UniformSetter \<times> WebGLActiveInfo option" where
  "getUniformInfo us name =
     (let us' =
            (if uniformInfoCache us name = None
             then (let uniformInfo = getUniformInfoByName (gl_context us) (program us) name
                   in us\<lparr> uniformInfoCache := (uniformInfoCache us)(name \<mapsto> uniformInfo) \<rparr>)
             else us)
      in (us', case uniformInfoCache us' name of Some ui \<Rightarrow> ui | None \<Rightarrow> None))"

text \<open>
  The callback of \<open>forEach\<close> in \<open>set\<close>, also the body of \<open>setOne\<close> and \<open>setInt\<close>, for a given
  \<open>setUniform\<close>. An exception leaving \<open>setUniform\<close> would leave the callback too.
\<close>

type_synonym uniform_setter =
  "GLcontext \<Rightarrow> location \<Rightarrow> UniformValue \<Rightarrow> WebGLActiveInfo option \<Rightarrow> string option
     \<Rightarrow> js_error + effect list"

definition set_entry ::
  "uniform_setter \<Rightarrow> UniformSetter \<Rightarrow> string \<times> UniformValue \<Rightarrow> js_error + UniformSetter" where
  "set_entry su us entry =
     (case entry of (name, v) \<Rightarrow>
        (case getLocation us name of (us1, loc) \<Rightarrow>
           if loc \<noteq> None
           then (case getUniformInfo us1 name of (us2, uniformInfo) \<Rightarrow>
                   (case su (gl_context us2) loc v uniformInfo (Some name) of
                      Inl e \<Rightarrow> Inl e
                    | Inr effs \<Rightarrow> Inr (us2\<lparr> effects := effects us2 @ effs \<rparr>)))
           else Inr us1))"

text \<open>\<open>Object.entries(uniforms).forEach(...)\<close>: an exception ends the loop.\<close>

fun forEach_entry ::
  "uniform_setter \<Rightarrow> UniformSetter \<Rightarrow> (string \<times> UniformValue) list \<Rightarrow> js_error + UniformSetter" where
  "forEach_entry su us [] = Inr us"
| "forEach_entry su us (entry # entries) =
     (case set_entry su us entry of
        Inl e \<Rightarrow> Inl e
      | Inr us' \<Rightarrow> forEach_entry su us' entries)"

definition UniformSetter_set ::
  "uniform_setter \<Rightarrow> UniformSetter \<Rightarrow> (string \<times> UniformValue) list \<Rightarrow> js_error + UniformSetter" where
  "UniformSetter_set su us uniforms0 = forEach_entry su (ensureCorrectProgramBound us) uniforms0"

definition setOne ::
  "uniform_setter \<Rightarrow> UniformSetter \<Rightarrow> string \<Rightarrow> UniformValue \<Rightarrow> js_error + UniformSetter" where
  "setOne su us name v = set_entry su (ensureCorrectProgramBound us) (name, v)"

definition setInt ::
  "uniform_setter \<Rightarrow> UniformSetter \<Rightarrow> string \<Rightarrow> jsnum \<Rightarrow> js_error + UniformSetter" where
  "setInt su us name v = set_entry su (ensureCorrectProgramBound us) (name, VNumber v)"

text \<open>A setter just constructed for a program of a context.\<close>

definition new_UniformSetter :: "GLcontext \<Rightarrow> nat \<Rightarrow> UniformSetter" where
  "new_UniformSetter gl0 prog =
     \<lparr> gl_context = gl0, program = prog, locationCache = Map.empty,
       uniformInfoCache = Map.empty, effects = [] \<rparr>"


section \<open>Concrete inputs\<close>

text \<open>
  The fragment at the centre of a 3 by 3 tile map with the given texels, and a small
  palette texture.
\<close>

definition example_palette :: sampler2D where
  "example_palette = \<lparr> pal_width = 4, pal_height = 6, pal_bytes = replicate 96 200 \<rparr>"

definition example_fragment :: "16 word list \<Rightarrow> fragment_input" where
  "example_fragment texels =
     \<lparr> v_texCoord = (1 / 2, 1 / 2),
       u_tileTexture = \<lparr> tile_width = 3, tile_height = 3, tile_texels = texels \<rparr>,
       u_hasFocusedPlayer = 0,
       u_focusedPlayerId = 0,
       u_paletteTexture = example_palette,
       u_territoryAlpha = 150 / 255,
       u_borderAlpha = 1,
       u_focusedBorderColor = (1, 1, 1),
       u_falloutColor = (120 / 255, 1, 71 / 255),
       debug_draw_palette = False,
       debug_draw_tiles = False \<rparr>"


text \<open>
  A game with one player, of small id 1, and a theme that gives every player the same
  colour for everything.
\<close>

definition example_colour :: RgbaColor where
  "example_colour = \<lparr> rgba_r = Fin 10, rgba_g = Fin 20, rgba_b = Fin 30, rgba_a = Fin 1 \<rparr>"

definition example_theme :: Theme where
  "example_theme =
     \<lparr> theme_ref = 1,
       theme_territoryColor = (\<lambda>p. example_colour),
       theme_specialBuildingColor = (\<lambda>p. example_colour),
       theme_railroadColor = (\<lambda>p. example_colour),
       theme_borderColor = (\<lambda>p. example_colour),
       theme_defendedBorderColors = (\<lambda>p. \<lparr> light = example_colour, dark = example_colour \<rparr>),
       theme_focusedBorderColor = example_colour,
       theme_falloutColor = example_colour \<rparr>"

definition example_game :: GameView where
  "example_game =
     \<lparr> config_theme = example_theme,
       playerViews = [\<lparr> smallID = 1, playerName = ''one'' \<rparr>],
       playerBySmallID = (\<lambda>i. \<lparr> smallID = i, playerName = ''one'' \<rparr>) \<rparr>"

text \<open>
  A WebGL 2 context with program 1 in use, whose uniforms \<open>u_a\<close> and \<open>u_b\<close> are at the
  locations 0 and 1 and are declared \<open>vec4\<close> and \<open>float\<close>.
\<close>

definition example_context :: GLcontext where
  "example_context =
     \<lparr> is_webgl2 = True,
       CURRENT_PROGRAM = Some 1,
       getUniformLocation =
         (\<lambda>prog name. if name = ''u_a'' then Some 0 else if name = ''u_b'' then Some 1 else None),
       getUniformInfoByName =
         (\<lambda>prog name.
            if name = ''u_a''
            then Some \<lparr> info_name = ''u_a'', info_size = 1, info_type = GL_FLOAT_VEC4 \<rparr>
            else if name = ''u_b''
            then Some \<lparr> info_name = ''u_b'', info_size = 1, info_type = GL_FLOAT \<rparr>
            else None) \<rparr>"

chapter \<open>Properties\<close>

section \<open>Tile word decoding\<close>

lemma OWNER_ID_MASK_eq_mask: "OWNER_ID_MASK = mask 12"
  by (simp add: OWNER_ID_MASK_def mask_eq_exp_minus_1)

lemma and_FALLOUT_MASK: "(bits AND FALLOUT_MASK \<noteq> 0) = bit bits 13"
  unfolding FALLOUT_MASK_def push_bit_of_1
  by (simp only: and_exp_eq_0_iff_not_bit not_not)

lemma and_DEFENSE_BONUS_MASK: "(bits AND DEFENSE_BONUS_MASK \<noteq> 0) = bit bits 14"
  unfolding DEFENSE_BONUS_MASK_def push_bit_of_1
  by (simp only: and_exp_eq_0_iff_not_bit not_not)

lemma DecodeTileData_bits:
  "DecodeTileData bits =
     \<lparr> ownerId = take_bit 12 bits, isFallout = bit bits 13, hasDefenseBonus = bit bits 14 \<rparr>"
  by (simp add: DecodeTileData_def OWNER_ID_MASK_eq_mask and_FALLOUT_MASK
      and_DEFENSE_BONUS_MASK take_bit_eq_mask)

lemma bit_pow13: "bit ((2::16 word) ^ 13) n \<longleftrightarrow> n = 13"
  by (subst bit_exp_iff) (auto simp add: possible_bit_word)

lemma bit_pow14: "bit ((2::16 word) ^ 14) n \<longleftrightarrow> n = 14"
  by (subst bit_exp_iff) (auto simp add: possible_bit_word)

lemma bit_ucast_16_32: "bit (ucast (w :: 16 word) :: 32 word) n \<longleftrightarrow> bit w n"
  by (auto simp add: bit_simps dest: bit_imp_le_length)

text \<open>
  Claim C2. A 16-bit tile word built from an owner id of at most 4095 and the two flags
  (fallout at bit 13, defense bonus at bit 14) decodes to exactly that owner id and those
  two flags.
\<close>

theorem DecodeTileData_roundtrip:
  fixes oid :: "16 word"
  assumes "unat oid \<le> 4095"
  shows "DecodeTileData
           (ucast (oid OR (if f then push_bit 13 1 else 0) OR (if d then push_bit 14 1 else 0)))
         = \<lparr> ownerId = ucast oid, isFallout = f, hasDefenseBonus = d \<rparr>"
proof -
  have "oid < 2 ^ 12"
    using assms by (simp add: word_less_nat_alt)
  then have t: "take_bit 12 oid = oid"
    by (simp add: less_mask_eq take_bit_eq_mask)
  have nb: "n < 12" if "bit oid n" for n
    using that by (metis t bit_take_bit_iff)
  define F :: "16 word" where "F = (if f then 2 ^ 13 else 0)"
  define D :: "16 word" where "D = (if d then 2 ^ 14 else 0)"
  have bF: "bit F n \<longleftrightarrow> f \<and> n = 13" for n
  proof (cases f)
    case True
    then have "F = 2 ^ 13" by (simp only: F_def if_True)
    then show ?thesis using True by (simp only: bit_pow13 simp_thms)
  next
    case False
    then have "F = 0" by (simp only: F_def if_False)
    then show ?thesis using False by simp
  qed
  have bD: "bit D n \<longleftrightarrow> d \<and> n = 14" for n
  proof (cases d)
    case True
    then have "D = 2 ^ 14" by (simp only: D_def if_True)
    then show ?thesis using True by (simp only: bit_pow14 simp_thms)
  next
    case False
    then have "D = 0" by (simp only: D_def if_False)
    then show ?thesis using False by simp
  qed
  let ?w = "oid OR F OR D"
  have o: "take_bit 12 (ucast ?w :: 32 word) = ucast oid"
    by (rule bit_eqI)
      (auto simp only: bit_take_bit_iff bit_ucast_16_32 bit_or_iff bF bD dest: nb)
  have n13: "\<not> bit oid 13" and n14: "\<not> bit oid 14"
    using nb [of 13] nb [of 14] by auto
  have f: "bit (ucast ?w :: 32 word) 13 = f"
    by (simp add: bit_ucast_16_32 bit_or_iff bF bD n13)
  have d: "bit (ucast ?w :: 32 word) 14 = d"
    by (simp add: bit_ucast_16_32 bit_or_iff bF bD n14)
  have "DecodeTileData (ucast ?w) = \<lparr> ownerId = ucast oid, isFallout = f, hasDefenseBonus = d \<rparr>"
    unfolding DecodeTileData_bits o f d ..
  then show ?thesis
    by (simp only: F_def D_def push_bit_of_1)
qed

theorem DecodeTileData_roundtrip_witness:
  "unat (5 :: 16 word) \<le> 4095 \<and>
   DecodeTileData (ucast ((5 :: 16 word) OR (if True then push_bit 13 1 else 0)
                            OR (if False then push_bit 14 1 else 0)))
     = \<lparr> ownerId = ucast (5 :: 16 word), isFallout = True, hasDefenseBonus = False \<rparr>"
  using DecodeTileData_roundtrip [of 5 True False] by simp

text \<open>
  Claim C10. The decoded triple depends only on bits 0 to 11, 13 and 14 of the tile word:
  two 16-bit words that agree on these bits decode to the same triple, whatever their
  bits 12 and 15 are.
\<close>

theorem DecodeTileData_ignores_bits_12_15:
  fixes a b :: "16 word"
  assumes "\<forall>n \<in> {0..11} \<union> {13, 14}. bit a n = bit b n"
  shows "DecodeTileData (ucast a) = DecodeTileData (ucast b)"
proof -
  have lo: "bit a n = bit b n" if "n < 12" for n
    using assms that by simp
  have "take_bit 12 (ucast a :: 32 word) = take_bit 12 (ucast b)"
    by (rule bit_eqI) (auto simp only: bit_take_bit_iff bit_ucast_16_32 lo)
  moreover have "bit (ucast a :: 32 word) 13 = bit (ucast b :: 32 word) 13"
    using assms by (simp add: bit_ucast_16_32)
  moreover have "bit (ucast a :: 32 word) 14 = bit (ucast b :: 32 word) 14"
    using assms by (simp add: bit_ucast_16_32)
  ultimately show ?thesis
    by (simp only: DecodeTileData_bits)
qed

theorem DecodeTileData_ignores_bits_12_15_witness:
  "DecodeTileData (ucast (0x1005 :: 16 word)) = DecodeTileData (ucast (0x8005 :: 16 word)) \<and>
   (0x1005 :: 16 word) \<noteq> 0x8005"
proof -
  have h: "\<forall>n \<in> {0..11} \<union> {13, 14}. bit (0x1005 :: 16 word) n = bit (0x8005 :: 16 word) n"
    by code_simp
  show ?thesis
    using DecodeTileData_ignores_bits_12_15 [OF h] by simp
qed

section \<open>Border detection\<close>

lemma floor_rat_divide_numeral:
  "\<lfloor>numeral a / numeral b :: rat\<rfloor> = numeral a div numeral b"
  by (metis floor_divide_of_int_eq of_int_numeral)

lemma pixelCoordOf_centre: "pixelCoordOf (3, 3) (1 / 2, 1 / 2) = (1, 1)"
  by (simp add: pixelCoordOf_def floor_rat_divide_numeral)

lemma texel_index_in_range:
  assumes "in_bounds (textureSize_u t) q"
  shows "texel_index t q < tile_width t * tile_height t"
proof -
  obtain x y where q: "q = (x, y)" by (cases q)
  have x: "nat x < tile_width t" and y: "nat y < tile_height t"
    using assms by (auto simp add: in_bounds_def textureSize_u_def q)
  have "nat y * tile_width t + nat x < nat y * tile_width t + tile_width t"
    using x by simp
  also have "\<dots> = Suc (nat y) * tile_width t"
    by simp
  also have "\<dots> \<le> tile_height t * tile_width t"
    using y by (intro mult_le_mono1) simp
  finally show ?thesis
    by (simp add: texel_index_def q mult.commute)
qed

lemma texelFetch_u_interior:
  assumes "length (tile_texels t) = tile_width t * tile_height t"
    and "in_bounds (textureSize_u t) q"
  shows "texelFetch_u t q = ucast (tile_texels t ! texel_index t q)"
  using assms texel_index_in_range [OF assms(2)] by (simp add: texelFetch_u_def)

lemma isBorder_iff:
  fixes env :: fragment_input and uv :: vec2
  defines "t \<equiv> u_tileTexture env"
  defines "c \<equiv> pixelCoordOf (textureSize_u t) uv"
  shows "isBorder env uv oid \<longleftrightarrow>
           (\<exists>q \<in> set [(fst c - 1, snd c), (fst c + 1, snd c), (fst c, snd c - 1), (fst c, snd c + 1)].
              ownerId (DecodeTileData (texelFetch_u t q)) \<noteq> oid)"
  by (auto simp add: isBorder_def Let_def DecodeTileData_def t_def c_def)

text \<open>
  Claim C3. Take a fragment whose four axis-aligned neighbour texels all lie inside the tile
  texture. If the owner field of every neighbour equals the tile's own owner id, \<open>isBorder\<close>
  is false; if the owner field of at least one neighbour differs, \<open>isBorder\<close> is true.
\<close>

theorem isBorder_interior:
  fixes env :: fragment_input
  defines "t \<equiv> u_tileTexture env"
  defines "c \<equiv> pixelCoordOf (textureSize_u t) (v_texCoord env)"
  defines "nbrs \<equiv> [(fst c - 1, snd c), (fst c + 1, snd c), (fst c, snd c - 1), (fst c, snd c + 1)]"
  defines "owner_at \<equiv> \<lambda>q. ownerId (DecodeTileData (ucast (tile_texels t ! texel_index t q)))"
  assumes wf: "length (tile_texels t) = tile_width t * tile_height t"
    and interior: "\<forall>q \<in> set nbrs. in_bounds (textureSize_u t) q"
  shows "((\<forall>q \<in> set nbrs. owner_at q = ownerId (ThisTile env))
            \<longrightarrow> \<not> isBorder env (v_texCoord env) (ownerId (ThisTile env)))
       \<and> ((\<exists>q \<in> set nbrs. owner_at q \<noteq> ownerId (ThisTile env))
            \<longrightarrow> isBorder env (v_texCoord env) (ownerId (ThisTile env)))"
proof -
  have fetch: "texelFetch_u t q = ucast (tile_texels t ! texel_index t q)" if "q \<in> set nbrs" for q
    using texelFetch_u_interior [OF wf] interior that by blast
  have "isBorder env (v_texCoord env) oid \<longleftrightarrow>
          (\<exists>q \<in> set nbrs. ownerId (DecodeTileData (texelFetch_u t q)) \<noteq> oid)" for oid
    unfolding nbrs_def c_def t_def by (rule isBorder_iff)
  then have "isBorder env (v_texCoord env) oid \<longleftrightarrow> (\<exists>q \<in> set nbrs. owner_at q \<noteq> oid)" for oid
    using fetch by (simp add: owner_at_def)
  then show ?thesis
    by blast
qed

theorem isBorder_interior_witness:
  "isBorder (example_fragment [1, 1, 1, 1, 1, 2, 1, 1, 1])
     (v_texCoord (example_fragment [1, 1, 1, 1, 1, 2, 1, 1, 1]))
     (ownerId (ThisTile (example_fragment [1, 1, 1, 1, 1, 2, 1, 1, 1])))
   \<and> \<not> isBorder (example_fragment [7, 1, 7, 1, 1, 1, 7, 1, 7])
     (v_texCoord (example_fragment [7, 1, 7, 1, 1, 1, 7, 1, 7]))
     (ownerId (ThisTile (example_fragment [7, 1, 7, 1, 1, 1, 7, 1, 7])))"
proof -
  note c = pixelCoordOf_centre
  have m: "OWNER_ID_MASK = 4095"
    by (simp add: OWNER_ID_MASK_def)
  show ?thesis
    using isBorder_interior [of "example_fragment [1, 1, 1, 1, 1, 2, 1, 1, 1]"]
      isBorder_interior [of "example_fragment [7, 1, 7, 1, 1, 1, 7, 1, 7]"]
    by (simp add: example_fragment_def textureSize_u_def c in_bounds_def texel_index_def
        ThisTile_def texture_u_def texelFetch_u_def clamp_coord_def DecodeTileData_def m)
qed

section \<open>Colour of unowned tiles\<close>

text \<open>
  Claim C1, as amended. With the tile debug overlay off, a tile whose decoded owner id is 0
  is painted fully transparent when its fallout flag is clear, whatever its defense-bonus
  flag is; when its fallout flag is set it is painted the fallout colour with the territory
  alpha, because \<open>territoryColor\<close> tests the fallout flag before the owner id.
\<close>

theorem territoryColor_unowned:
  assumes "ownerId (ThisTile env) = UNOWNED_TERRITORY_ID"
    and "\<not> debug_draw_tiles env"
  shows "territoryColor env =
           (if isFallout (ThisTile env)
            then (case u_falloutColor env of (r, g, b) \<Rightarrow> (r, g, b, u_territoryAlpha env))
            else (0, 0, 0, 0))"
  using assms by (simp add: territoryColor_def Let_def)

lemma ThisTile_example:
  "ThisTile (example_fragment [a0, a1, a2, a3, a4, a5, a6, a7, a8]) = DecodeTileData (ucast a4)"
proof -
  note c = pixelCoordOf_centre
  show ?thesis
    by (simp add: example_fragment_def textureSize_u_def c in_bounds_def texel_index_def
        ThisTile_def texture_u_def texelFetch_u_def clamp_coord_def)
qed

theorem territoryColor_unowned_witness:
  "territoryColor (example_fragment [1, 1, 1, 1, 0x4000, 1, 1, 1, 1]) = (0, 0, 0, 0)
   \<and> territoryColor (example_fragment [1, 1, 1, 1, 0x2000, 1, 1, 1, 1])
       = (120 / 255, 1, 71 / 255, 150 / 255)"
proof -
  have a: "DecodeTileData 0x4000 = \<lparr> ownerId = 0, isFallout = False, hasDefenseBonus = True \<rparr>"
    by (simp add: DecodeTileData_def OWNER_ID_MASK_def FALLOUT_MASK_def DEFENSE_BONUS_MASK_def)
  have b: "DecodeTileData 0x2000 = \<lparr> ownerId = 0, isFallout = True, hasDefenseBonus = False \<rparr>"
    by (simp add: DecodeTileData_def OWNER_ID_MASK_def FALLOUT_MASK_def DEFENSE_BONUS_MASK_def)
  have d: "\<not> debug_draw_tiles (example_fragment ws)" 
    and f: "u_falloutColor (example_fragment ws) = (120 / 255, 1, 71 / 255)"
    and ta: "u_territoryAlpha (example_fragment ws) = 150 / 255" for ws
    by (simp_all add: example_fragment_def)
  show ?thesis
    using territoryColor_unowned [of "example_fragment [1, 1, 1, 1, 0x4000, 1, 1, 1, 1]"]
      territoryColor_unowned [of "example_fragment [1, 1, 1, 1, 0x2000, 1, 1, 1, 1]"]
    by (simp add: ThisTile_example a b d f ta UNOWNED_TERRITORY_ID_def)
qed

text \<open>
  The claim as first stated fails: a tile word with owner id 0 and the fallout flag set is
  painted the fallout colour, and with the tile debug overlay on an unowned tile is blended
  with the debug colour.
\<close>

theorem territoryColor_unowned_counterexample:
  "ownerId (ThisTile (example_fragment [1, 1, 1, 1, 0x2000, 1, 1, 1, 1])) = 0
   \<and> territoryColor (example_fragment [1, 1, 1, 1, 0x2000, 1, 1, 1, 1]) \<noteq> (0, 0, 0, 0)
   \<and> ownerId (ThisTile ((example_fragment [1, 1, 1, 1, 0, 1, 1, 1, 1])\<lparr>debug_draw_tiles := True\<rparr>)) = 0
   \<and> territoryColor ((example_fragment [1, 1, 1, 1, 0, 1, 1, 1, 1])\<lparr>debug_draw_tiles := True\<rparr>)
       = (0, 0, 0, 1 / 2)"
proof -
  have b: "DecodeTileData 0x2000 = \<lparr> ownerId = 0, isFallout = True, hasDefenseBonus = False \<rparr>"
    by (simp add: DecodeTileData_def OWNER_ID_MASK_def FALLOUT_MASK_def DEFENSE_BONUS_MASK_def)
  have z: "DecodeTileData 0 = \<lparr> ownerId = 0, isFallout = False, hasDefenseBonus = False \<rparr>"
    by (simp add: DecodeTileData_def)
  note c = pixelCoordOf_centre
  have t: "ThisTile ((example_fragment [1, 1, 1, 1, 0, 1, 1, 1, 1])\<lparr>debug_draw_tiles := True\<rparr>)
             = DecodeTileData 0"
    by (simp add: example_fragment_def textureSize_u_def c in_bounds_def texel_index_def
        ThisTile_def texture_u_def texelFetch_u_def clamp_coord_def)
  have s: "(drop_bit 4 (1::int) XOR drop_bit 4 (1::int)) AND 1 = 0"
    by simp
  have "territoryColor (example_fragment [1, 1, 1, 1, 0x2000, 1, 1, 1, 1])
          = (120 / 255, 1, 71 / 255, 150 / 255)"
    by (simp add: territoryColor_def Let_def ThisTile_example b)
       (simp add: example_fragment_def)
  moreover have "territoryColor ((example_fragment [1, 1, 1, 1, 0, 1, 1, 1, 1])\<lparr>debug_draw_tiles := True\<rparr>)
          = (0, 0, 0, 1 / 2)"
    by (simp add: territoryColor_def DebugDrawTileData_def Let_def t z UNOWNED_TERRITORY_ID_def)
       (simp add: example_fragment_def textureSize_u_def c s mix_def)
  ultimately show ?thesis
    by (simp add: ThisTile_example b t z)
qed

section \<open>Row and pixel writes of TextureData\<close>

lemma getRowIndex_NaN: "getRowIndex td row = NaN"
  by (simp add: getRowIndex_def number_at_def)

lemma setRow_ignores_row: "setRow td row data = setRow td 0 data"
  by (simp add: setRow_def setBytes_def)

lemma setPixelRgba_writes_nothing: "setPixelRgba td x y rgba = td"
  by (cases "bytes td") (simp_all add: setPixelRgba_def getRowIndex_NaN is_index_def)

text \<open>
  Claim C5 does not hold of the code. On a 2 by 2 one-byte texture, \<open>setRow\<close> for row 1
  overwrites row 0 and leaves row 1 as it was; on a one-pixel RGBA texture,
  \<open>setPixelRgba\<close> at (0, 0) stores nothing.
\<close>

theorem setRow_setPixelRgba_at_failing_input:
  "map_sum id bytes (setRow (new_TextureData 2 2 1 0 0 UNSIGNED_BYTE) 1 [7, 9])
     = Inr (Uint8Array [7, 9, 0, 0])
   \<and> bytes (setPixelRgba (new_TextureData 1 1 4 0 0 UNSIGNED_BYTE) 0 0
               \<lparr> rgba_r = Fin 1, rgba_g = Fin 2, rgba_b = Fin 3, rgba_a = Fin 4 \<rparr>)
     = Uint8Array [0, 0, 0, 0]"
  by (simp add: setRow_def setBytes_def typed_set_def new_TextureData_def
      setPixelRgba_writes_nothing numeral_eq_Suc)

section \<open>The palette after an update\<close>

lemma typed_store_Uint8:
  "typed_store (Uint8Array xs) (Fin (of_nat i)) v = Uint8Array (xs[i := ToUint8 v])"
  by (simp add: is_index_def index_of_def list_update_beyond)

lemma store_rgba_Uint8:
  "store_rgba (Uint8Array xs) base c =
     Uint8Array (xs[base := ToUint8 (rgba_r c), base + 1 := ToUint8 (rgba_g c),
                    base + 2 := ToUint8 (rgba_b c), base + 3 := ToUint8 (rgba_a c)])"
  by (simp only: store_rgba_def Let_def typed_store_Uint8 add_0_right)

lemma nth_store4:
  assumes "j < length xs"
  shows "xs[base := v0, base + 1 := v1, base + 2 := v2, base + 3 := v3] ! j =
           (if base \<le> j \<and> j < base + 4 then [v0, v1, v2, v3] ! (j - base) else xs ! j)"
proof -
  consider "j < base" | "j = base" | "j = base + 1" | "j = base + 2" | "j = base + 3" | "j \<ge> base + 4"
    by linarith
  then show ?thesis using assms
    by cases (simp_all add: nth_list_update)
qed

lemma palette_column_nth:
  assumes S: "S = 4 * w" and x0: "1 \<le> x0" "x0 < w" and s: "s \<le> w"
    and row: "row < 6" and k: "k < 4"
    and pos: "row * S + x0 * 4 + k < length xs"
  shows "\<exists>ys. palette_column th gv S 4 s (Uint8Array xs) = Uint8Array ys \<and> length ys = length xs \<and>
          ys ! (row * S + x0 * 4 + k) =
           (if x0 = s then rgba_bytes (claimed_colors th (playerBySmallID gv s) ! row) ! k
            else xs ! (row * S + x0 * 4 + k))"
proof -
  have rows: "row = 0 \<or> row = 1 \<or> row = 2 \<or> row = 3 \<or> row = 4 \<or> row = 5"
    using row by linarith
  have ks: "k = 0 \<or> k = 1 \<or> k = 2 \<or> k = 3"
    using k by linarith
  show ?thesis
    unfolding palette_column_def Let_def store_rgba_Uint8
    apply (intro exI conjI)
      apply (rule refl)
     apply simp
    using rows ks x0 s pos unfolding S
    apply (elim disjE)
    apply (simp_all add: nth_store4 rgba_bytes_def claimed_colors_def)
    done
qed

lemma palette_loop_nth:
  assumes S: "S = 4 * w" and x0: "1 \<le> x0" "x0 < w" and pmc: "pmc \<le> w"
    and row: "row < 6" and k: "k < 4"
    and pos: "row * S + x0 * 4 + k < length xs"
  shows "\<exists>ys cs'. palette_loop th gv S 4 pmc s (Uint8Array xs, cs) = (Uint8Array ys, cs') \<and>
          length ys = length xs \<and>
          ys ! (row * S + x0 * 4 + k) =
           (if s \<le> x0 \<and> x0 \<le> pmc
            then rgba_bytes (claimed_colors th (playerBySmallID gv x0) ! row) ! k
            else xs ! (row * S + x0 * 4 + k))"
  using pos
proof (induction "Suc pmc - s" arbitrary: s xs cs)
  case 0
  then have "\<not> s \<le> pmc" by simp
  then show ?case
    by (subst palette_loop.simps) simp
next
  case (Suc n)
  then have le: "s \<le> pmc" and n: "n = Suc pmc - Suc s"
    by simp_all
  from le pmc have sw: "s \<le> w" by simp
  obtain xs1 where col: "palette_column th gv S 4 s (Uint8Array xs) = Uint8Array xs1"
    and len1: "length xs1 = length xs"
    and nth1: "xs1 ! (row * S + x0 * 4 + k) =
           (if x0 = s then rgba_bytes (claimed_colors th (playerBySmallID gv s) ! row) ! k
            else xs ! (row * S + x0 * 4 + k))"
    using palette_column_nth [OF S x0 sw row k Suc.prems, of th gv] by blast
  have pos1: "row * S + x0 * 4 + k < length xs1"
    using Suc.prems len1 by simp
  obtain ys cs' where
    loop: "palette_loop th gv S 4 pmc (Suc s) (Uint8Array xs1, cs @ column_calls gv s)
             = (Uint8Array ys, cs')"
    and len: "length ys = length xs1"
    and nth: "ys ! (row * S + x0 * 4 + k) =
           (if Suc s \<le> x0 \<and> x0 \<le> pmc
            then rgba_bytes (claimed_colors th (playerBySmallID gv x0) ! row) ! k
            else xs1 ! (row * S + x0 * 4 + k))"
    using Suc.hyps(1) [OF n pos1] by blast
  have "palette_loop th gv S 4 pmc s (Uint8Array xs, cs) = (Uint8Array ys, cs')"
    by (subst palette_loop.simps) (simp add: le col loop)
  moreover have "length ys = length xs"
    using len len1 by simp
  moreover have "ys ! (row * S + x0 * 4 + k) =
           (if s \<le> x0 \<and> x0 \<le> pmc
            then rgba_bytes (claimed_colors th (playerBySmallID gv x0) ! row) ! k
            else xs ! (row * S + x0 * 4 + k))"
    using nth nth1 le by auto
  ultimately show ?case
    by blast
qed

lemma palette_column_shape:
  "\<exists>ys. palette_column th gv S b s (Uint8Array xs) = Uint8Array ys \<and> length ys = length xs"
  by (simp add: palette_column_def store_rgba_Uint8 Let_def)

lemma palette_loop_shape:
  "\<exists>ys cs'. palette_loop th gv S b pmc s (Uint8Array xs, cs) = (Uint8Array ys, cs') \<and>
     length ys = length xs"
proof (induction "Suc pmc - s" arbitrary: s xs cs)
  case 0
  then have "\<not> s \<le> pmc" by simp
  then show ?case
    by (subst palette_loop.simps) simp
next
  case (Suc n)
  then have le: "s \<le> pmc" and n: "n = Suc pmc - Suc s"
    by simp_all
  obtain xs1 where col: "palette_column th gv S b s (Uint8Array xs) = Uint8Array xs1"
    and len1: "length xs1 = length xs"
    using palette_column_shape by blast
  obtain ys cs' where
    "palette_loop th gv S b pmc (Suc s) (Uint8Array xs1, cs @ column_calls gv s)
       = (Uint8Array ys, cs')" and "length ys = length xs1"
    using Suc.hyps(1) [OF n] by blast
  then show ?case
    using le col len1 by (subst palette_loop.simps) simp
qed

lemma length_rgba_bytes: "length (rgba_bytes c) = 4"
  by (simp add: rgba_bytes_def)

lemma palette_loop_texel:
  assumes loop: "palette_loop th gv (w * 4) 4 pmc 1 (Uint8Array xs, cs) = (Uint8Array ys, cs')"
    and x0: "1 \<le> x0" "x0 < w" and pmc: "pmc \<le> w"
    and row: "row < 6" and len: "length xs = 6 * (w * 4)"
  shows "map (\<lambda>k. ys ! (row * (w * 4) + x0 * 4 + k)) [0..<4] =
           (if x0 \<le> pmc then rgba_bytes (claimed_colors th (playerBySmallID gv x0) ! row)
            else map (\<lambda>k. xs ! (row * (w * 4) + x0 * 4 + k)) [0..<4])"
proof -
  have S: "w * 4 = 4 * w" by simp
  have nth: "ys ! (row * (w * 4) + x0 * 4 + k) =
           (if x0 \<le> pmc then rgba_bytes (claimed_colors th (playerBySmallID gv x0) ! row) ! k
            else xs ! (row * (w * 4) + x0 * 4 + k))" if "k < 4" for k
  proof -
    have "row = 0 \<or> row = 1 \<or> row = 2 \<or> row = 3 \<or> row = 4 \<or> row = 5"
      using row by linarith
    then have "row * (w * 4) + x0 * 4 + k < length xs"
      using x0 that len by (elim disjE) simp_all
    from palette_loop_nth [OF S x0 pmc row that this, of th gv 1 cs] loop x0(1)
    show ?thesis by auto
  qed
  show ?thesis
  proof (cases "x0 \<le> pmc")
    case True
    have "map (\<lambda>k. ys ! (row * (w * 4) + x0 * 4 + k)) [0..<4] =
            map (\<lambda>k. rgba_bytes (claimed_colors th (playerBySmallID gv x0) ! row) ! k) [0..<4]"
      using nth True by (intro map_cong) simp_all
    also have "\<dots> = rgba_bytes (claimed_colors th (playerBySmallID gv x0) ! row)"
      using map_nth [of "rgba_bytes (claimed_colors th (playerBySmallID gv x0) ! row)"]
      by (simp only: length_rgba_bytes)
    finally show ?thesis using True by simp
  next
    case False
    have "map (\<lambda>k. ys ! (row * (w * 4) + x0 * 4 + k)) [0..<4] =
            map (\<lambda>k. xs ! (row * (w * 4) + x0 * 4 + k)) [0..<4]"
      using nth False by (intro map_cong) simp_all
    then show ?thesis using False by simp
  qed
qed

lemma needsCpuUpdate_Object:
  "game cp = Object gv \<Longrightarrow>
   needsCpuUpdate cp = Inr (\<not> (Some (theme_ref (config_theme gv)) = previousTheme cp
                               \<and> Some (length (playerViews gv)) = previousPlayerCount cp))"
  by (simp add: needsCpuUpdate_def currentTheme_def currentPlayerCount_def)

lemma upt_0_6: "[0..<6] = [0, 1, 2, 3, 4, 5::nat]"
  by (simp add: upt_rec)

lemma upt_0_4: "[0..<4] = [0, 1, 2, 3::nat]"
  by (simp add: upt_rec)

lemma updateCpuData_column:
  assumes g: "game cp = Object gv"
    and td: "textureData cp = Some td"
    and layout: "bpp td = 4" "stride td = bpp td * width td" "height td = 6"
    and buf: "bytes td = Uint8Array xs" "length xs = height td * stride td"
    and dirty: "needsCpuUpdate cp = Inr True"
    and oid: "1 \<le> oid" "oid < width td"
  shows "column_after (updateCpuData cp) oid =
           Some (if oid \<le> maxSmallId_of (playerViews gv)
                 then map rgba_bytes (claimed_colors (config_theme gv) (playerBySmallID gv oid))
                 else map (texel_bytes td oid) [0..<6])"
proof -
  define w where "w = width td"
  define pmc where "pmc = min w (maxSmallId_of (playerViews gv))"
  obtain ys cs' where
    loop: "palette_loop (config_theme gv) gv (w * 4) 4 pmc 1 (Uint8Array xs, []) = (Uint8Array ys, cs')"
    and len: "length ys = length xs"
    using palette_loop_shape by blast
  define td' where "td' = td\<lparr>bytes := Uint8Array ys\<rparr>"
  have upd: "column_after (updateCpuData cp) oid = Some (map (texel_bytes td' oid) [0..<6])"
    using g td dirty loop layout
    by (simp add: updateCpuData_def column_after_def Let_def w_def pmc_def td'_def buf)
  have lenxs: "length xs = 6 * (w * 4)"
    using layout buf by (simp add: w_def)
  have in_range: "pmc \<le> w" "oid < w" "oid \<le> pmc \<longleftrightarrow> oid \<le> maxSmallId_of (playerViews gv)"
    using oid by (auto simp add: pmc_def w_def)
  have row: "texel_bytes td' oid row
               = (if oid \<le> maxSmallId_of (playerViews gv)
                  then rgba_bytes (claimed_colors (config_theme gv) (playerBySmallID gv oid) ! row)
                  else texel_bytes td oid row)"
    if "row < 6" for row
    using palette_loop_texel [OF loop oid(1) in_range(2) in_range(1) that lenxs] in_range(3) layout
    by (simp add: texel_bytes_def td'_def elements_def w_def mult.commute buf)
  show ?thesis
  proof (cases "oid \<le> maxSmallId_of (playerViews gv)")
    case True
    have "map (texel_bytes td' oid) [0..<6]
          = map (\<lambda>row. rgba_bytes (claimed_colors (config_theme gv) (playerBySmallID gv oid) ! row)) [0..<6]"
      using row True by (intro map_cong) simp_all
    also have "\<dots> = map rgba_bytes (claimed_colors (config_theme gv) (playerBySmallID gv oid))"
      using map_nth [of "claimed_colors (config_theme gv) (playerBySmallID gv oid)"]
      by (simp add: claimed_colors_def upt_0_6 del: map_nth)
    finally show ?thesis
      using upd True by simp
  next
    case False
    have "map (texel_bytes td' oid) [0..<6] = map (texel_bytes td oid) [0..<6]"
      using row False by (intro map_cong) simp_all
    then show ?thesis
      using upd False by simp
  qed
qed

lemma init_column:
  assumes "1 \<le> oid" "oid < 4096"
  shows "column_after (init new_ColorPalette gv) oid =
           Some (if oid \<le> maxSmallId_of (playerViews gv)
                 then map rgba_bytes (claimed_colors (config_theme gv) (playerBySmallID gv oid))
                 else [[0, 0, 0, 0], [0, 0, 0, 0], [0, 0, 0, 0],
                       [0, 0, 0, 0], [0, 0, 0, 0], [0, 0, 0, 0]])"
proof -
  let ?td = "new_TextureData 4096 6 4 6408 6408 UNSIGNED_BYTE"
  let ?cp = "new_ColorPalette\<lparr> game := Object gv, textureData := Some ?td \<rparr>"
  have z: "map (texel_bytes ?td oid) [0..<6]
             = [[0, 0, 0, 0], [0, 0, 0, 0], [0, 0, 0, 0], [0, 0, 0, 0], [0, 0, 0, 0], [0, 0, 0, 0]]"
    using assms by (simp add: texel_bytes_def new_TextureData_def elements_def upt_0_6 upt_0_4)
  have "column_after (updateCpuData ?cp) oid =
           Some (if oid \<le> maxSmallId_of (playerViews gv)
                 then map rgba_bytes (claimed_colors (config_theme gv) (playerBySmallID gv oid))
                 else map (texel_bytes ?td oid) [0..<6])"
    using assms
    by (intro updateCpuData_column [where xs = "replicate 98304 0"])
       (simp_all add: new_ColorPalette_def new_TextureData_def needsCpuUpdate_Object)
  then show ?thesis
    by (simp only: z init_def MAX_UNIQUE_PLAYER_COLORS_def PALETTE_TEXTURE_HEIGHT_def push_bit_of_1)
       simp
qed

lemma updateCpuData_second_call:
  assumes "game cp = Object gv"
    and "theme_ref (config_theme gv') = theme_ref (config_theme gv)"
    and "length (playerViews gv') = length (playerViews gv)"
  shows "\<exists>cp1 calls1. updateCpuData cp = Inr (cp1, calls1) \<and>
           updateCpuData (cp1\<lparr>game := Object gv'\<rparr>) = Inr (cp1\<lparr>game := Object gv'\<rparr>, [])"
proof (cases "textureData cp")
  case None
  then show ?thesis
    using assms by (simp add: updateCpuData_def)
next
  case (Some td)
  show ?thesis
  proof (cases "Some (theme_ref (config_theme gv)) = previousTheme cp
                  \<and> Some (length (playerViews gv)) = previousPlayerCount cp")
    case True
    then have "updateCpuData cp = Inr (cp, [])"
      using assms(1) Some by (simp add: updateCpuData_def needsCpuUpdate_Object)
    moreover have "updateCpuData (cp\<lparr>game := Object gv'\<rparr>) = Inr (cp\<lparr>game := Object gv'\<rparr>, [])"
      using True assms(2,3) Some
      by (simp add: updateCpuData_def needsCpuUpdate_Object [where gv = gv'])
    ultimately show ?thesis
      by blast
  next
    case False
    then have dirty: "needsCpuUpdate cp = Inr True"
      using assms(1) by (simp add: needsCpuUpdate_Object)
    obtain bs calls where
      loop: "palette_loop (config_theme gv) gv (width td * 4) 4
               (min (width td) (maxSmallId_of (playerViews gv))) 1 (bytes td, []) = (bs, calls)"
      by (cases "palette_loop (config_theme gv) gv (width td * 4) 4
               (min (width td) (maxSmallId_of (playerViews gv))) 1 (bytes td, [])")
    define cp1 where "cp1 = fst (projr (updateCpuData cp))"
    have first: "updateCpuData cp = Inr (cp1, calls @ [Call_focusedBorderColor, Call_falloutColor])"
      and prev: "previousTheme cp1 = Some (theme_ref (config_theme gv))"
        "previousPlayerCount cp1 = Some (length (playerViews gv))"
      and tex: "textureData cp1 \<noteq> None"
      using assms(1) Some dirty loop
      by (simp_all add: cp1_def updateCpuData_def Let_def)
    have "updateCpuData (cp1\<lparr>game := Object gv'\<rparr>) = Inr (cp1\<lparr>game := Object gv'\<rparr>, [])"
      using prev tex assms(2,3)
      by (auto simp add: updateCpuData_def needsCpuUpdate_Object [where gv = gv'])
    then show ?thesis
      using first by blast
  qed
qed


lemma example_game_colours:
  "maxSmallId_of (playerViews example_game) = 1"
  "map rgba_bytes (claimed_colors (config_theme example_game) (playerBySmallID example_game oid))
     = [[10, 20, 30, 1], [10, 20, 30, 1], [10, 20, 30, 1],
        [10, 20, 30, 1], [10, 20, 30, 1], [10, 20, 30, 1]]"
  by (simp_all add: maxSmallId_of_def claimed_colors_def example_game_def example_theme_def
      rgba_bytes_def example_colour_def js_trunc_def)

text \<open>
  Claim C4, as amended. Take a palette whose texture has the layout \<open>init\<close> gives it (four
  bytes a texel, six rows, a byte buffer of that size) and a call of \<open>updateCpuData\<close> that
  recomputes it (the dirty check reports a change). Afterwards, for every owner id from 1
  up to the width of the texture less one (4095 for the palette of \<open>init\<close>): if the id is at
  most the largest small id of the player views, rows 0 to 5 of column \<open>x = ownerId\<close> hold
  the bytes of the theme's territory, special-building, railroad, undefended-border,
  defended-border-light and defended-border-dark colours for the player with that small
  id, each channel converted as a byte store converts it; if the id is larger, the column
  is as it was before the call.
\<close>

theorem updateCpuData_fills_columns:
  assumes "game cp = Object gv"
    and "textureData cp = Some td"
    and "bpp td = 4" "stride td = bpp td * width td" "height td = 6"
    and "bytes td = Uint8Array xs" "length xs = height td * stride td"
    and "needsCpuUpdate cp = Inr True"
    and "1 \<le> oid" "oid < width td"
  shows "column_after (updateCpuData cp) oid =
           Some (if oid \<le> maxSmallId_of (playerViews gv)
                 then map rgba_bytes (claimed_colors (config_theme gv) (playerBySmallID gv oid))
                 else map (texel_bytes td oid) [0..<6])"
  using assms by (rule updateCpuData_column)

theorem updateCpuData_fills_columns_witness:
  "column_after (init new_ColorPalette example_game) 1 =
     Some [[10, 20, 30, 1], [10, 20, 30, 1], [10, 20, 30, 1],
           [10, 20, 30, 1], [10, 20, 30, 1], [10, 20, 30, 1]]"
proof -
  let ?td = "new_TextureData 4096 6 4 6408 6408 UNSIGNED_BYTE"
  let ?cp = "new_ColorPalette\<lparr> game := Object example_game, textureData := Some ?td \<rparr>"
  have "column_after (updateCpuData ?cp) 1 =
           Some (if 1 \<le> maxSmallId_of (playerViews example_game)
                 then map rgba_bytes (claimed_colors (config_theme example_game)
                                        (playerBySmallID example_game 1))
                 else map (texel_bytes ?td 1) [0..<6])"
    by (intro updateCpuData_fills_columns [where xs = "replicate 98304 0"])
       (simp_all add: new_ColorPalette_def new_TextureData_def needsCpuUpdate_Object)
  then show ?thesis
    by (simp only: example_game_colours init_def MAX_UNIQUE_PLAYER_COLORS_def
        PALETTE_TEXTURE_HEIGHT_def push_bit_of_1) simp
qed

text \<open>
  The claim as first stated fails in three ways. With one player, of small id 1, column 2
  of the palette of \<open>init\<close> is never written, whatever the theme says of a player 2. A
  channel is stored as a byte: an alpha of one half, in colord's range from 0 to 1, is
  stored as 0. And a call that finds the theme object and the player count unchanged
  recomputes nothing: when the theme has come to give player 1 another territory colour,
  column 1 still holds the old one after the call.
\<close>

theorem updateCpuData_fills_columns_counterexample:
  "column_after (init new_ColorPalette example_game) 2 =
     Some [[0, 0, 0, 0], [0, 0, 0, 0], [0, 0, 0, 0], [0, 0, 0, 0], [0, 0, 0, 0], [0, 0, 0, 0]]
   \<and> theme_territoryColor (config_theme example_game) (playerBySmallID example_game 2)
       = \<lparr> rgba_r = Fin 10, rgba_g = Fin 20, rgba_b = Fin 30, rgba_a = Fin 1 \<rparr>
   \<and> column_after
         (init new_ColorPalette
            (example_game\<lparr> config_theme := example_theme\<lparr> theme_territoryColor :=
               (\<lambda>p. \<lparr> rgba_r = Fin 10, rgba_g = Fin 20, rgba_b = Fin 30, rgba_a = Fin (1 / 2) \<rparr>) \<rparr> \<rparr>)) 1
       = Some [[10, 20, 30, 0], [10, 20, 30, 1], [10, 20, 30, 1],
               [10, 20, 30, 1], [10, 20, 30, 1], [10, 20, 30, 1]]
   \<and> column_after
         (updateCpuData
            ((fst (projr (init new_ColorPalette example_game)))
               \<lparr> game := Object (example_game\<lparr> config_theme := example_theme\<lparr> theme_territoryColor :=
                   (\<lambda>p. \<lparr> rgba_r = Fin 200, rgba_g = Fin 0, rgba_b = Fin 0, rgba_a = Fin 1 \<rparr>) \<rparr> \<rparr>) \<rparr>)) 1
       = Some [[10, 20, 30, 1], [10, 20, 30, 1], [10, 20, 30, 1],
               [10, 20, 30, 1], [10, 20, 30, 1], [10, 20, 30, 1]]"
proof -
  let ?half = "example_game\<lparr> config_theme := example_theme\<lparr> theme_territoryColor :=
               (\<lambda>p. \<lparr> rgba_r = Fin 10, rgba_g = Fin 20, rgba_b = Fin 30, rgba_a = Fin (1 / 2) \<rparr>) \<rparr> \<rparr>"
  let ?red = "example_game\<lparr> config_theme := example_theme\<lparr> theme_territoryColor :=
               (\<lambda>p. \<lparr> rgba_r = Fin 200, rgba_g = Fin 0, rgba_b = Fin 0, rgba_a = Fin 1 \<rparr>) \<rparr> \<rparr>"
  have one: "column_after (init new_ColorPalette example_game) 2 =
     Some [[0, 0, 0, 0], [0, 0, 0, 0], [0, 0, 0, 0], [0, 0, 0, 0], [0, 0, 0, 0], [0, 0, 0, 0]]"
    using init_column [of 2 example_game] by (simp add: example_game_colours)
  have two: "theme_territoryColor (config_theme example_game) (playerBySmallID example_game 2)
       = \<lparr> rgba_r = Fin 10, rgba_g = Fin 20, rgba_b = Fin 30, rgba_a = Fin 1 \<rparr>"
    by (simp add: example_game_def example_theme_def example_colour_def)
  have three: "column_after (init new_ColorPalette ?half) 1
       = Some [[10, 20, 30, 0], [10, 20, 30, 1], [10, 20, 30, 1],
               [10, 20, 30, 1], [10, 20, 30, 1], [10, 20, 30, 1]]"
    by (subst init_column)
       (simp_all add: maxSmallId_of_def claimed_colors_def example_game_def example_theme_def
          rgba_bytes_def example_colour_def js_trunc_def floor_rat_divide_numeral)
  have four: "column_after
         (updateCpuData ((fst (projr (init new_ColorPalette example_game)))\<lparr> game := Object ?red \<rparr>)) 1
       = Some [[10, 20, 30, 1], [10, 20, 30, 1], [10, 20, 30, 1],
               [10, 20, 30, 1], [10, 20, 30, 1], [10, 20, 30, 1]]"
  proof -
    let ?td = "new_TextureData MAX_UNIQUE_PLAYER_COLORS PALETTE_TEXTURE_HEIGHT 4 6408 6408
                 UNSIGNED_BYTE"
    let ?cp = "new_ColorPalette\<lparr> game := Object example_game, textureData := Some ?td \<rparr>"
    obtain cp1 calls1 where
      first: "updateCpuData ?cp = Inr (cp1, calls1)"
      and second: "updateCpuData (cp1\<lparr>game := Object ?red\<rparr>) = Inr (cp1\<lparr>game := Object ?red\<rparr>, [])"
      using updateCpuData_second_call [of ?cp example_game ?red]
      by (auto simp add: example_game_def example_theme_def)
    have i: "init new_ColorPalette example_game = Inr (cp1, calls1)"
      using first by (simp add: init_def)
    have "column_after (updateCpuData (cp1\<lparr>game := Object ?red\<rparr>)) 1
            = column_after (init new_ColorPalette example_game) 1"
      by (simp add: second i column_after_def)
    also have "\<dots> = Some [[10, 20, 30, 1], [10, 20, 30, 1], [10, 20, 30, 1],
               [10, 20, 30, 1], [10, 20, 30, 1], [10, 20, 30, 1]]"
      using init_column [of 1 example_game] by (simp add: example_game_colours)
    finally show ?thesis
      by (simp add: i)
  qed
  from one two three four show ?thesis
    by blast
qed

section \<open>Dirty checking of the palette\<close>

text \<open>
  Claim C8. Call \<open>updateCpuData\<close> on a palette with a game. The call returns; and if,
  before a second call, the game has changed in any way that keeps the identity of its
  theme object and the number of its player views, the second call returns the palette
  object unchanged (byte buffer, uniforms and \<open>needsGpuUpload\<close> as the first call left
  them) and makes no call of the theme.
\<close>

theorem updateCpuData_twice:
  assumes "game cp = Object gv"
    and "theme_ref (config_theme gv') = theme_ref (config_theme gv)"
    and "length (playerViews gv') = length (playerViews gv)"
  shows "\<exists>cp1 calls1. updateCpuData cp = Inr (cp1, calls1) \<and>
           updateCpuData (cp1\<lparr>game := Object gv'\<rparr>) = Inr (cp1\<lparr>game := Object gv'\<rparr>, [])"
  using assms by (rule updateCpuData_second_call)

theorem updateCpuData_twice_witness:
  "\<exists>cp1 calls1. init new_ColorPalette example_game = Inr (cp1, calls1) \<and>
     updateCpuData (cp1\<lparr>game := Object (example_game\<lparr>playerBySmallID := (\<lambda>i. \<lparr> smallID = i, playerName = ''two'' \<rparr>)\<rparr>)\<rparr>)
       = Inr (cp1\<lparr>game := Object (example_game\<lparr>playerBySmallID := (\<lambda>i. \<lparr> smallID = i, playerName = ''two'' \<rparr>)\<rparr>)\<rparr>, [])"
  unfolding init_def
  by (rule updateCpuData_twice) simp_all

section \<open>The uniform setters\<close>

lemma setUniform_returns:
  assumes "ToString v = Converts"
  shows "\<exists>effs. setUniform gl0 loc v ui name = Inr effs"
  using assms by (simp add: setUniform_def catch_block_def split: sum.split)

lemma setUniform_000_returns:
  assumes "ToString v = Converts"
  shows "\<exists>effs. setUniform_000 gl0 loc v ui name = Inr effs"
  using assms by (simp add: setUniform_000_def catch_block_def split: sum.split)

lemma getLocation_facts:
  assumes "getLocation us name = (us1, loc)"
  shows "gl_context us1 = gl_context us" "program us1 = program us"
    "uniformInfoCache us1 = uniformInfoCache us"
    "\<exists>ext. effects us1 = effects us @ ext"
    "snd (getLocation us1 n) = snd (getLocation us n)"
    "loc = snd (getLocation us name)"
  using assms
  by (auto simp add: getLocation_def Let_def split: if_splits option.splits)

lemma getUniformInfo_facts:
  assumes "getUniformInfo us name = (us1, ui)"
  shows "gl_context us1 = gl_context us" "program us1 = program us"
    "locationCache us1 = locationCache us"
    "effects us1 = effects us"
    "snd (getUniformInfo us1 n) = snd (getUniformInfo us n)"
    "ui = snd (getUniformInfo us name)"
  using assms
  by (auto simp add: getUniformInfo_def Let_def split: if_splits option.splits)

lemma getLocation_cong:
  assumes "locationCache a = locationCache b" "gl_context a = gl_context b" "program a = program b"
  shows "snd (getLocation a n) = snd (getLocation b n)"
  using assms by (simp add: getLocation_def Let_def)

lemma getUniformInfo_cong:
  assumes "uniformInfoCache a = uniformInfoCache b" "gl_context a = gl_context b"
    "program a = program b"
  shows "snd (getUniformInfo a n) = snd (getUniformInfo b n)"
  using assms by (simp add: getUniformInfo_def Let_def)

lemma ensureCorrectProgramBound_lookups:
  "snd (getLocation (ensureCorrectProgramBound us) n) = snd (getLocation us n)"
  "snd (getUniformInfo (ensureCorrectProgramBound us) n) = snd (getUniformInfo us n)"
  by (auto simp add: ensureCorrectProgramBound_def getLocation_def getUniformInfo_def Let_def
      split: option.splits)

text \<open>
  One entry whose \<open>setUniform\<close> call returns: the callback returns, the caches answer as
  before, and the effects of the call are the last effects so far.
\<close>

lemma set_entry_facts:
  assumes total: "\<forall>g l i n. \<exists>effs. su g l v i n = Inr effs"
  shows "\<exists>us'. set_entry su us (name, v) = Inr us'
           \<and> gl_context us' = gl_context us \<and> program us' = program us
           \<and> (\<forall>n. snd (getLocation us' n) = snd (getLocation us n))
           \<and> (\<forall>n. snd (getUniformInfo us' n) = snd (getUniformInfo us n))
           \<and> (\<exists>ext. effects us' = effects us @ ext)
           \<and> (snd (getLocation us name) \<noteq> None \<longrightarrow>
                (\<exists>ext effs. su (gl_context us) (snd (getLocation us name)) v
                               (snd (getUniformInfo us name)) (Some name) = Inr effs
                             \<and> effects us' = effects us @ ext @ effs))"
proof -
  obtain us1 loc where l: "getLocation us name = (us1, loc)"
    by (cases "getLocation us name")
  note lf = getLocation_facts [OF l]
  from lf(4) obtain ext where ext: "effects us1 = effects us @ ext" ..
  have i1: "snd (getUniformInfo us1 n) = snd (getUniformInfo us n)" for n
    using lf by (intro getUniformInfo_cong) simp_all
  show ?thesis
  proof (cases "loc = None")
    case True
    then have "set_entry su us (name, v) = Inr us1"
      by (simp add: set_entry_def l)
    then show ?thesis
      using lf True i1 by auto
  next
    case False
    obtain us2 ui where u: "getUniformInfo us1 name = (us2, ui)"
      by (cases "getUniformInfo us1 name")
    note uf = getUniformInfo_facts [OF u]
    obtain effs where effs: "su (gl_context us2) loc v ui (Some name) = Inr effs"
      using total by blast
    let ?us' = "us2\<lparr> effects := effects us2 @ effs \<rparr>"
    have r: "set_entry su us (name, v) = Inr ?us'"
      using False by (simp add: set_entry_def l u effs)
    have l2: "snd (getLocation ?us' n) = snd (getLocation us n)" for n
    proof -
      have "snd (getLocation ?us' n) = snd (getLocation us1 n)"
        using uf by (intro getLocation_cong) simp_all
      then show ?thesis using lf(5) by simp
    qed
    have i2: "snd (getUniformInfo ?us' n) = snd (getUniformInfo us n)" for n
    proof -
      have "snd (getUniformInfo ?us' n) = snd (getUniformInfo us2 n)"
        by (intro getUniformInfo_cong) simp_all
      then show ?thesis using uf(5) i1 by simp
    qed
    have call: "su (gl_context us) (snd (getLocation us name)) v
                  (snd (getUniformInfo us name)) (Some name) = Inr effs"
      using effs uf(1,6) lf(1,6) i1 by simp
    have eff: "effects ?us' = effects us @ ext @ effs"
      using uf(4) ext by simp
    show ?thesis
      using r l2 i2 call eff uf(1,2) lf(1,2) by auto
  qed
qed

text \<open>
  The loop over entries whose \<open>setUniform\<close> calls all return: it runs to the end, and the
  effects of each located entry's call are among the effects of the loop.
\<close>

lemma forEach_entry_facts:
  assumes total: "\<forall>x \<in> snd ` set entries. \<forall>g l i n. \<exists>effs. su g l x i n = Inr effs"
  shows "\<exists>us'. forEach_entry su us entries = Inr us'
           \<and> (\<exists>ext. effects us' = effects us @ ext)
           \<and> (\<forall>(name, v) \<in> set entries. snd (getLocation us name) \<noteq> None \<longrightarrow>
                (\<exists>before effs after.
                    su (gl_context us) (snd (getLocation us name)) v
                       (snd (getUniformInfo us name)) (Some name) = Inr effs
                  \<and> effects us' = before @ effs @ after))"
  using total
proof (induction entries arbitrary: us)
  case Nil
  then show ?case by simp
next
  case (Cons entry entries)
  obtain name v where entry: "entry = (name, v)"
    by (cases entry)
  have total_v: "\<forall>g l i n. \<exists>effs. su g l v i n = Inr effs"
    using Cons.prems entry by simp
  have total_rest: "\<forall>x \<in> snd ` set entries. \<forall>g l i n. \<exists>effs. su g l x i n = Inr effs"
    using Cons.prems by simp
  from set_entry_facts [where su = su and us = us and name = name and v = v, OF total_v]
  obtain us1 ext1 where
    s: "set_entry su us (name, v) = Inr us1"
    and c: "gl_context us1 = gl_context us" "program us1 = program us"
    and l: "\<And>n. snd (getLocation us1 n) = snd (getLocation us n)"
    and i: "\<And>n. snd (getUniformInfo us1 n) = snd (getUniformInfo us n)"
    and e: "effects us1 = effects us @ ext1"
    and h: "snd (getLocation us name) \<noteq> None \<longrightarrow>
                (\<exists>ext effs. su (gl_context us) (snd (getLocation us name)) v
                               (snd (getUniformInfo us name)) (Some name) = Inr effs
                             \<and> effects us1 = effects us @ ext @ effs)"
    by blast
  from Cons.IH [of us1, OF total_rest] obtain us' ext2 where
    f: "forEach_entry su us1 entries = Inr us'"
    and e2: "effects us' = effects us1 @ ext2"
    and rest: "\<forall>(name, v) \<in> set entries. snd (getLocation us1 name) \<noteq> None \<longrightarrow>
                (\<exists>before effs after.
                    su (gl_context us1) (snd (getLocation us1 name)) v
                       (snd (getUniformInfo us1 name)) (Some name) = Inr effs
                  \<and> effects us' = before @ effs @ after)"
    by blast
  have "forEach_entry su us (entry # entries) = Inr us'"
    by (simp add: entry s f)
  moreover have "\<exists>ext. effects us' = effects us @ ext"
    using e e2 by simp
  moreover have "\<exists>before effs after.
                    su (gl_context us) (snd (getLocation us n)) x
                       (snd (getUniformInfo us n)) (Some n) = Inr effs
                  \<and> effects us' = before @ effs @ after"
    if "(n, x) \<in> set (entry # entries)" "snd (getLocation us n) \<noteq> None" for n x
  proof (cases "(n, x) = entry")
    case True
    then have "n = name" "x = v" using entry by simp_all
    with h that(2) obtain ext effs where
      "su (gl_context us) (snd (getLocation us n)) x (snd (getUniformInfo us n)) (Some n) = Inr effs"
      "effects us1 = effects us @ ext @ effs"
      by blast
    then have "su (gl_context us) (snd (getLocation us n)) x (snd (getUniformInfo us n)) (Some n) = Inr effs
        \<and> effects us' = (effects us @ ext) @ effs @ ext2"
      using e2 by simp
    then show ?thesis by blast
  next
    case False
    then have "(n, x) \<in> set entries" using that(1) by simp
    with rest that(2) show ?thesis
      using l i c by fastforce
  qed
  ultimately show ?case
    by blast
qed


text \<open>
  Claim C7, as amended. For every location and uniform info, and every value whose
  conversion to a string does not throw, each of the two \<open>setUniform\<close> functions returns
  normally, and an exception thrown in its \<open>try\<close> block is caught and logged: the function
  then does nothing but write the one line of its \<open>catch\<close> block. So, for a record all of
  whose values are such values, \<open>UniformSetter.set\<close> returns normally too, and for every
  entry whose location is found, the effects of that entry's \<open>setUniform\<close> call (an upload,
  or the log of its failure) are among the effects of \<open>set\<close>, whatever happened to the
  entries before.
\<close>

theorem setUniform_returns_and_set_processes_every_entry:
  assumes "(su, body) = (setUniform, setUniform_try)
         \<or> (su, body) = (setUniform_000, setUniform_try_000)"
    and "ToString v = Converts"
    and "\<forall>x \<in> snd ` set entries. ToString x = Converts"
  shows "(\<exists>effs. su ctx loc v ui name = Inr effs)
       \<and> (\<forall>e. body ctx loc v ui name = Inl e \<longrightarrow>
            su ctx loc v ui name
              = Inr [ConsoleError (ExceptionSettingUniform (shown_name name ui) e)])
       \<and> (\<forall>effs. body ctx loc v ui name = Inr effs \<longrightarrow> su ctx loc v ui name = Inr effs)
       \<and> (\<exists>us'. UniformSetter_set su us entries = Inr us'
             \<and> (\<forall>(n, x) \<in> set entries. snd (getLocation us n) \<noteq> None \<longrightarrow>
                  (\<exists>before effs after.
                      su (gl_context (ensureCorrectProgramBound us)) (snd (getLocation us n)) x
                         (snd (getUniformInfo us n)) (Some n) = Inr effs
                    \<and> effects us' = before @ effs @ after)))"
proof -
  have su: "su = setUniform \<and> body = setUniform_try
          \<or> su = setUniform_000 \<and> body = setUniform_try_000"
    using assms(1) by simp
  have returns: "\<exists>effs. su g l x i n = Inr effs" if "ToString x = Converts" for g l x i n
    using su that setUniform_returns setUniform_000_returns by blast
  have caught: "su ctx loc v ui name
                  = Inr [ConsoleError (ExceptionSettingUniform (shown_name name ui) e)]"
    if "body ctx loc v ui name = Inl e" for e
    using su that assms(2) by (auto simp add: setUniform_def setUniform_000_def catch_block_def)
  have passed: "su ctx loc v ui name = Inr effs" if "body ctx loc v ui name = Inr effs" for effs
    using su that by (auto simp add: setUniform_def setUniform_000_def)
  have total: "\<forall>x \<in> snd ` set entries. \<forall>g l i n. \<exists>effs. su g l x i n = Inr effs"
    using assms(3) returns by blast
  let ?us = "ensureCorrectProgramBound us"
  from forEach_entry_facts [where su = su and us = ?us and entries = entries, OF total]
  have "\<exists>us'. UniformSetter_set su us entries = Inr us'
             \<and> (\<forall>(n, x) \<in> set entries. snd (getLocation us n) \<noteq> None \<longrightarrow>
                  (\<exists>before effs after.
                      su (gl_context ?us) (snd (getLocation us n)) x
                         (snd (getUniformInfo us n)) (Some n) = Inr effs
                    \<and> effects us' = before @ effs @ after))"
    unfolding UniformSetter_set_def ensureCorrectProgramBound_lookups by blast
  then show ?thesis
    using returns [OF assms(2)] caught passed by blast
qed

theorem setUniform_returns_and_set_processes_every_entry_witness:
  "map_sum id effects
     (UniformSetter_set setUniform (new_UniformSetter example_context 1)
        [(''u_a'', VArray [Fin 1, Fin 2, Fin 3, Fin 4, Fin 5]), (''u_b'', VNumber (Fin 2))])
   = Inr [ConsoleError (ExceptionSettingUniform (Some ''u_a'') (UnsupportedArrayLength 5)),
          GL (uniform1f (Some 1) (Fin 2))]
   \<and> setUniform_try example_context (Some 0) (VArray [Fin 1, Fin 2, Fin 3, Fin 4, Fin 5])
       None (Some ''u_a'') = Inl (UnsupportedArrayLength 5)
   \<and> setUniform example_context (Some 0) (VArray [Fin 1, Fin 2, Fin 3, Fin 4, Fin 5])
       None (Some ''u_a'')
     = Inr [ConsoleError (ExceptionSettingUniform (Some ''u_a'') (UnsupportedArrayLength 5))]"
  using setUniform_returns_and_set_processes_every_entry
    [where su = setUniform and body = setUniform_try and ctx = example_context
       and loc = "Some 0" and v = "VArray [Fin 1, Fin 2, Fin 3, Fin 4, Fin 5]"
       and ui = None and name = "Some ''u_a''"
       and us = "new_UniformSetter example_context 1"
       and entries = "[(''u_a'', VArray [Fin 1, Fin 2, Fin 3, Fin 4, Fin 5]),
                        (''u_b'', VNumber (Fin 2))]"]
  by (simp add: UniformSetter_set_def set_entry_def getLocation_def getUniformInfo_def
      ensureCorrectProgramBound_def new_UniformSetter_def example_context_def Let_def
      setUniform_def setUniform_try_def set_array_def set_float_vector_def set_number_def
      catch_block_def shown_name_def)

text \<open>
  The claim as first stated fails for a value whose conversion to a string throws. A
  Symbol reaches the last branch of UniformSetter.ts, whose template literal throws a
  TypeError; the \<open>catch\<close> block converts the value again, and the TypeError leaves
  \<open>setUniform\<close>. In the second file an object with an \<open>rgba\<close> property and no prototype,
  given with no uniform info, reaches the \<open>catch\<close> block in the same way. And \<open>set\<close>, given
  a record whose first value is a Symbol, ends with that TypeError: the second entry is not
  processed.
\<close>

theorem setUniform_returns_and_set_processes_every_entry_counterexample:
  "setUniform example_context (Some 0) (VOther (Throws TypeError)) None (Some ''u_a'')
     = Inl TypeError
   \<and> setUniform_000 example_context (Some 0)
       (VObject (RgbaObject (Some \<lparr> like_r = Fin 10, like_g = Fin 20, like_b = Fin 30,
                                    like_a = Num (Fin 1) \<rparr>)) (Throws TypeError))
       None (Some ''u_a'')
     = Inl TypeError
   \<and> UniformSetter_set setUniform (new_UniformSetter example_context 1)
       [(''u_a'', VOther (Throws TypeError)), (''u_b'', VNumber (Fin 2))]
     = Inl TypeError"
  by (simp add: UniformSetter_set_def set_entry_def getLocation_def getUniformInfo_def
      ensureCorrectProgramBound_def new_UniformSetter_def example_context_def Let_def
      setUniform_def setUniform_try_def setUniform_000_def setUniform_try_000_def
      log_failed_def catch_block_def)

section \<open>The two setters without introspection\<close>

text \<open>
  Claim C9, as amended. A number and no uniform info. With a program in use, the
  \<open>setUniform\<close> of UniformSetter.ts uploads the number with \<open>uniform1f\<close>, and the \<open>setUniform\<close>
  of the second file uploads nothing: it throws "No uniform info available", catches it
  and logs it. With no program in use the two do the same: each writes "No program bound
  when trying to set uniform" with the name to the console and returns, with no call on
  the context and nothing thrown.
\<close>

theorem setUniform_without_info_differs:
  "(CURRENT_PROGRAM gl0 \<noteq> None \<longrightarrow>
      setUniform gl0 loc (VNumber x) None name = Inr [GL (uniform1f loc x)]
    \<and> setUniform_try_000 gl0 loc (VNumber x) None name = Inl NoUniformInfoAvailable
    \<and> setUniform_000 gl0 loc (VNumber x) None name
        = Inr [ConsoleError (ExceptionSettingUniform name NoUniformInfoAvailable)])
   \<and> (CURRENT_PROGRAM gl0 = None \<longrightarrow>
      setUniform gl0 loc (VNumber x) None name
        = Inr [ConsoleError (NoProgramBound (name_or_unknown name))]
    \<and> setUniform_try_000 gl0 loc (VNumber x) None name
        = Inr [ConsoleError (NoProgramBound (name_or_unknown name))]
    \<and> setUniform_000 gl0 loc (VNumber x) None name
        = Inr [ConsoleError (NoProgramBound (name_or_unknown name))])"
  by (simp add: setUniform_def setUniform_try_def setUniform_000_def setUniform_try_000_def
      catch_block_def shown_name_def split: option.split)

theorem setUniform_without_info_differs_witness:
  "setUniform example_context (Some 1) (VNumber (Fin 2)) None (Some ''u_b'')
     = Inr [GL (uniform1f (Some 1) (Fin 2))]
   \<and> setUniform_000 example_context (Some 1) (VNumber (Fin 2)) None (Some ''u_b'')
       = Inr [ConsoleError (ExceptionSettingUniform (Some ''u_b'') NoUniformInfoAvailable)]
   \<and> setUniform_000 (example_context\<lparr> CURRENT_PROGRAM := None \<rparr>) (Some 1) (VNumber (Fin 2))
       None (Some ''u_b'')
       = Inr [ConsoleError (NoProgramBound ''u_b'')]"
  using setUniform_without_info_differs [of example_context "Some 1" "Fin 2" "Some ''u_b''"]
    setUniform_without_info_differs
      [of "example_context\<lparr> CURRENT_PROGRAM := None \<rparr>" "Some 1" "Fin 2" "Some ''u_b''"]
  by (simp add: example_context_def name_or_unknown_def)

text \<open>
  The claim as first stated fails with no program in use: the \<open>setUniform\<close> of
  UniformSetter.ts then uploads nothing, the \<open>try\<close> block of the second file throws
  nothing, and the two functions do the same.
\<close>

theorem setUniform_without_info_differs_counterexample:
  "setUniform (example_context\<lparr> CURRENT_PROGRAM := None \<rparr>) (Some 1) (VNumber (Fin 2)) None
     (Some ''u_b'')
     = Inr [ConsoleError (NoProgramBound ''u_b'')]
   \<and> setUniform_try_000 (example_context\<lparr> CURRENT_PROGRAM := None \<rparr>) (Some 1)
       (VNumber (Fin 2)) None (Some ''u_b'')
     = Inr [ConsoleError (NoProgramBound ''u_b'')]
   \<and> setUniform_000 (example_context\<lparr> CURRENT_PROGRAM := None \<rparr>) (Some 1) (VNumber (Fin 2))
       None (Some ''u_b'')
     = setUniform (example_context\<lparr> CURRENT_PROGRAM := None \<rparr>) (Some 1) (VNumber (Fin 2))
         None (Some ''u_b'')"
  by (simp add: setUniform_def setUniform_try_def setUniform_000_def setUniform_try_000_def
      example_context_def name_or_unknown_def)

section \<open>A three-element array for a four-component uniform\<close>




end
